(* ===== verification/Prelude.thy ===== *)
theory Prelude
  imports Main "HOL-Library.Sublist"
begin

text \<open>
  Shared vocabulary of the development. A JavaScript computation that may throw and that
  performs observable effects (console output, network calls, the HTTP response) is modelled
  as a pair of its outcome and the list of effects it performed, in order:
  \<open>('x, 'e, 'a) comp = ('x + 'a) \<times> 'e list\<close>, \<open>Inl\<close> the thrown value. \<open>cbind\<close> runs the
  continuation only when the first computation returned normally (an exception skips the
  rest of the block, as in JavaScript); \<open>try_catch\<close> runs a handler on the thrown value and
  keeps the effects the protected block performed before it threw. The collection
  \<open>comp_simps\<close> evaluates a composed computation by rewriting, the way the code runs it.
  The asynchronous variant \<open>('x, 'e, 'a) acomp\<close> also records where the run suspends:
  its effects come in slices, one per stretch between two \<open>await\<close>s (\<open>abind\<close>, \<open>await\<close>,
  \<open>atry_catch\<close>, evaluated by \<open>acomp_simps\<close>); \<open>aflat\<close> forgets the slices and turns each
  operation into its sequential counterpart. The prelude also holds list lemmas the
  components share (joining with a separator, and infixes for "the output contains this
  text").
\<close>

named_theorems comp_simps "evaluation rules of the exception/effect computations"
named_theorems acomp_simps "evaluation rules of the computations with suspension points"

type_synonym ('x, 'e, 'a) comp = "('x + 'a) \<times> 'e list"

definition ret :: "'a \<Rightarrow> ('x, 'e, 'a) comp" where
  "ret a = (Inr a, [])"

definition throw :: "'x \<Rightarrow> ('x, 'e, 'a) comp" where
  "throw x = (Inl x, [])"

definition emit :: "'e \<Rightarrow> ('x, 'e, unit) comp" where
  "emit e = (Inr (), [e])"

definition lift :: "'x + 'a \<Rightarrow> ('x, 'e, 'a) comp" where
  "lift r = (r, [])"

definition cbind :: "('x, 'e, 'a) comp \<Rightarrow> ('a \<Rightarrow> ('x, 'e, 'b) comp) \<Rightarrow> ('x, 'e, 'b) comp" where
  "cbind m f =
     (case m of
        (Inl x, t) \<Rightarrow> (Inl x, t)
      | (Inr a, t) \<Rightarrow> (case f a of (r, t') \<Rightarrow> (r, t @ t')))"

definition try_catch :: "('x, 'e, 'a) comp \<Rightarrow> ('x \<Rightarrow> ('x, 'e, 'a) comp) \<Rightarrow> ('x, 'e, 'a) comp" where
  "try_catch m h =
     (case m of
        (Inl x, t) \<Rightarrow> (case h x of (r, t') \<Rightarrow> (r, t @ t'))
      | (Inr a, t) \<Rightarrow> (Inr a, t))"

text \<open>Joining strings with a separator, as \<open>Array.prototype.join\<close> does.\<close>

fun join_with :: "'a list \<Rightarrow> 'a list list \<Rightarrow> 'a list" where
  "join_with sep [] = []"
| "join_with sep [s] = s"
| "join_with sep (s # ss) = s @ sep @ join_with sep ss"

text \<open>Collecting a list of results, stopping at the first error (left to right).\<close>

fun seq_results :: "('x + 'a) list \<Rightarrow> 'x + 'a list" where
  "seq_results [] = Inr []"
| "seq_results (Inl x # _) = Inl x"
| "seq_results (Inr a # rs) = (case seq_results rs of Inl x \<Rightarrow> Inl x | Inr as \<Rightarrow> Inr (a # as))"

text \<open>
  An \<open>async\<close> function runs in slices: from its call to its first \<open>await\<close>, and from the
  settling of each awaited promise to the next \<open>await\<close> or to its end; other work of the
  event loop may run between two slices. \<open>('x, 'e, 'a) acomp\<close> keeps the effects of each
  slice apart: the outcome and the list of slices, the last one open. \<open>await r\<close> ends the
  current slice and resumes with \<open>r\<close>, the settled value or the rejection; \<open>seg_join\<close>
  continues the open slice of a computation with the first slice of the next one.
\<close>

type_synonym ('x, 'e, 'a) acomp = "('x + 'a) \<times> 'e list list"

definition seg_join :: "'e list list \<Rightarrow> 'e list list \<Rightarrow> 'e list list" where
  "seg_join xs ys =
     (if xs = [] then ys else if ys = [] then xs else butlast xs @ (last xs @ hd ys) # tl ys)"

definition aret :: "'a \<Rightarrow> ('x, 'e, 'a) acomp" where
  "aret a = (Inr a, [[]])"

definition aemit :: "'e \<Rightarrow> ('x, 'e, unit) acomp" where
  "aemit e = (Inr (), [[e]])"

definition alift :: "'x + 'a \<Rightarrow> ('x, 'e, 'a) acomp" where
  "alift r = (r, [[]])"

definition await :: "'x + 'a \<Rightarrow> ('x, 'e, 'a) acomp" where
  "await r = (r, [[], []])"

definition abind :: "('x, 'e, 'a) acomp \<Rightarrow> ('a \<Rightarrow> ('x, 'e, 'b) acomp) \<Rightarrow> ('x, 'e, 'b) acomp" where
  "abind m f =
     (case m of
        (Inl x, s) \<Rightarrow> (Inl x, s)
      | (Inr a, s) \<Rightarrow> (case f a of (r, s') \<Rightarrow> (r, seg_join s s')))"

definition atry_catch :: "('x, 'e, 'a) acomp \<Rightarrow> ('x \<Rightarrow> ('x, 'e, 'a) acomp) \<Rightarrow> ('x, 'e, 'a) acomp" where
  "atry_catch m h =
     (case m of
        (Inl x, s) \<Rightarrow> (case h x of (r, s') \<Rightarrow> (r, seg_join s s'))
      | (Inr a, s) \<Rightarrow> (Inr a, s))"

text \<open>Forgetting where the slices end gives the sequential computation.\<close>

definition aflat :: "('x, 'e, 'a) acomp \<Rightarrow> ('x, 'e, 'a) comp" where
  "aflat m = (fst m, concat (snd m))"

subsection \<open>Evaluation rules of computations\<close>

lemma cbind_ret [comp_simps]: "cbind (ret a) f = f a"
  by (simp add: cbind_def ret_def split: prod.split)

lemma cbind_throw [comp_simps]: "cbind (throw x) f = throw x"
  by (simp add: cbind_def throw_def)

lemma cbind_lift_Inl [comp_simps]: "cbind (lift (Inl x)) f = throw x"
  by (simp add: cbind_def lift_def throw_def)

lemma cbind_lift_Inr [comp_simps]: "cbind (lift (Inr a)) f = f a"
  by (simp add: cbind_def lift_def split: prod.split)

lemma cbind_emit [comp_simps]: "cbind (emit e) f = (fst (f ()), e # snd (f ()))"
  by (simp add: cbind_def emit_def split: prod.split)

lemma cbind_assoc: "cbind (cbind m f) g = cbind m (\<lambda>a. cbind (f a) g)"
  by (auto simp: cbind_def split: prod.split sum.split)

lemma try_catch_ret [comp_simps]: "try_catch (ret a) h = ret a"
  by (simp add: try_catch_def ret_def)

lemma try_catch_throw [comp_simps]: "try_catch (throw x) h = h x"
  by (simp add: try_catch_def throw_def split: prod.split)

lemma try_catch_pair_Inr [comp_simps]: "try_catch (Inr a, t) h = (Inr a, t)"
  by (simp add: try_catch_def)

lemma try_catch_pair_Inl [comp_simps]: "try_catch (Inl x, t) h = (fst (h x), t @ snd (h x))"
  by (simp add: try_catch_def split: prod.split)

lemma cbind_pair_Inl [comp_simps]: "cbind (Inl x, t) f = (Inl x, t)"
  by (simp add: cbind_def)

lemma cbind_pair_Inr [comp_simps]: "cbind (Inr a, t) f = (fst (f a), t @ snd (f a))"
  by (simp add: cbind_def split: prod.split)

lemma emit_pair [comp_simps]: "emit e = (Inr (), [e])"
  by (simp add: emit_def)

lemma ret_pair [comp_simps]: "ret a = (Inr a, [])"
  by (simp add: ret_def)

lemma lift_pair [comp_simps]: "lift r = (r, [])"
  by (simp add: lift_def)

lemma throw_pair [comp_simps]: "throw x = (Inl x, [])"
  by (simp add: throw_def)

text \<open>
  The outcome and the trace of a composition, by cases on the first outcome: the form in
  which a property of every run is proved by splitting on each intermediate result.
\<close>

named_theorems comp_trace "outcome and trace of composed computations"

lemma fst_cbind [comp_trace]:
  "fst (cbind m f) = (case fst m of Inl x \<Rightarrow> Inl x | Inr a \<Rightarrow> fst (f a))"
  by (simp add: cbind_def split: prod.split sum.split)

lemma snd_cbind [comp_trace]:
  "snd (cbind m f) = snd m @ (case fst m of Inl x \<Rightarrow> [] | Inr a \<Rightarrow> snd (f a))"
  by (simp add: cbind_def split: prod.split sum.split)

lemma fst_try_catch [comp_trace]:
  "fst (try_catch m h) = (case fst m of Inl x \<Rightarrow> fst (h x) | Inr a \<Rightarrow> Inr a)"
  by (simp add: try_catch_def split: prod.split sum.split)

lemma snd_try_catch [comp_trace]:
  "snd (try_catch m h) = snd m @ (case fst m of Inl x \<Rightarrow> snd (h x) | Inr a \<Rightarrow> [])"
  by (simp add: try_catch_def split: prod.split sum.split)

lemma fst_lift [comp_trace]: "fst (lift r) = r" and snd_lift [comp_trace]: "snd (lift r) = []"
  by (simp_all add: lift_def)

lemma fst_emit [comp_trace]: "fst (emit e) = Inr ()" and snd_emit [comp_trace]: "snd (emit e) = [e]"
  by (simp_all add: emit_def)

subsection \<open>Computations with suspension points\<close>

lemma concat_seg_join [simp]: "concat (seg_join xs ys) = concat xs @ concat ys"
proof (cases xs rule: rev_cases)
  case Nil
  then show ?thesis by (simp add: seg_join_def)
next
  case (snoc xs' x)
  then show ?thesis by (cases ys) (simp_all add: seg_join_def)
qed

lemma seg_join_single [simp]: "s \<noteq> [] \<Longrightarrow> seg_join s [x] = butlast s @ [last s @ x]"
  by (simp add: seg_join_def)

lemma aflat_abind: "aflat (abind m f) = cbind (aflat m) (\<lambda>a. aflat (f a))"
  by (auto simp: aflat_def abind_def cbind_def split: prod.split sum.split)

lemma aflat_atry_catch: "aflat (atry_catch m h) = try_catch (aflat m) (\<lambda>x. aflat (h x))"
  by (auto simp: aflat_def atry_catch_def try_catch_def split: prod.split sum.split)

lemma aflat_simps:
  "aflat (aret a) = ret a" "aflat (aemit e) = emit e" "aflat (alift r) = lift r" "aflat (await r) = lift r"
  by (simp_all add: aflat_def aret_def ret_def aemit_def emit_def alift_def lift_def await_def)

lemma aflat_if: "aflat (if c then a else b) = (if c then aflat a else aflat b)"
  by simp

lemma abind_pair_Inl [acomp_simps]: "abind (Inl x, s) f = (Inl x, s)"
  by (simp add: abind_def)

lemma abind_pair_Inr [acomp_simps]: "abind (Inr a, s) f = (fst (f a), seg_join s (snd (f a)))"
  by (simp add: abind_def split: prod.split)

lemma atry_catch_pair_Inl [acomp_simps]: "atry_catch (Inl x, s) h = (fst (h x), seg_join s (snd (h x)))"
  by (simp add: atry_catch_def split: prod.split)

lemma atry_catch_pair_Inr [acomp_simps]: "atry_catch (Inr a, s) h = (Inr a, s)"
  by (simp add: atry_catch_def)

lemma acomp_pairs [acomp_simps]:
  "aret a = (Inr a, [[]])" "aemit e = (Inr (), [[e]])" "alift r = (r, [[]])" "await r = (r, [[], []])"
  by (simp_all add: aret_def aemit_def alift_def await_def)

declare seg_join_def [acomp_simps]

subsection \<open>Lists\<close>

lemma seq_results_map_Inr [simp]: "seq_results (map Inr as) = Inr as"
  by (induction as) simp_all

lemma seq_results_Inr_iff:
  "seq_results rs = Inr as \<longleftrightarrow> rs = map Inr as"
proof (induction rs arbitrary: as rule: seq_results.induct)
  case 1
  then show ?case by auto
next
  case (2 x rs)
  then show ?case by auto
next
  case (3 a rs)
  then show ?case by (auto split: sum.splits)
qed

lemma seq_results_Inl_mem: "seq_results rs = Inl x \<Longrightarrow> Inl x \<in> set rs"
  by (induction rs rule: seq_results.induct) (auto split: sum.splits)

lemma seq_results_isl_iff: "isl (seq_results rs) \<longleftrightarrow> (\<exists>x. Inl x \<in> set rs)"
  by (induction rs rule: seq_results.induct) (auto split: sum.splits)

lemma concat_map_singleton: "(\<forall>x \<in> set xs. f x = [x]) \<Longrightarrow> concat (map f xs) = xs"
  by (induction xs) simp_all

lemma sublist_trans: "sublist a b \<Longrightarrow> sublist b c \<Longrightarrow> sublist a c"
  by (rule sublist_order.order.trans)

lemma sublist_in_appendR [intro]: "sublist u ys \<Longrightarrow> sublist u (xs @ ys)"
  by (metis append_assoc sublist_def)

lemma sublist_in_appendL [intro]: "sublist u xs \<Longrightarrow> sublist u (xs @ ys)"
  by (metis append_assoc sublist_def)

lemma sublist_in_Cons [intro]: "sublist u ys \<Longrightarrow> sublist u (x # ys)"
  using sublist_in_appendR [of u ys "[x]"] by simp

lemma join_with_Cons: "\<exists>ys. join_with sep (x # xs) = x @ ys"
  by (cases xs) auto

lemma join_with_member: "x \<in> set xs \<Longrightarrow> sublist x (join_with sep xs)"
proof (induction sep xs rule: join_with.induct)
  case (1 sep)
  then show ?case by simp
next
  case (2 sep s)
  then show ?case by simp
next
  case (3 sep s v vs)
  then show ?case by (auto intro: sublist_in_appendR)
qed

end
