(* ===== verification/JsValue.thy ===== *)
theory JsValue
  imports Prelude
begin

text \<open>
  The JavaScript values the handler of \<^verbatim>\<open>src/api/log.js\<close> manipulates, and the parts of
  the language semantics its code relies on. A value is one of those that the platform's
  JSON body parser can produce, plus \<open>undefined\<close> (a missing property): objects keep their
  properties as an association list in property order, numbers are the safe integers
  (the model's \<open>int\<close>; a fractional or huge number is outside the model), strings are
  their UTF-8 encoding as a \<open>char\<close> list. The operations are ToBoolean (the \<open>!x\<close> test of
  line 14), Number::toString, ToString as a template literal \<open>${x}\<close> applies it
  (lines 27, 32, 42; it throws a TypeError for an object whose own property \<open>toString\<close>
  shadows the inherited method, since a parsed value is never callable), and the property
  reads of the destructuring on line 11, which throw a TypeError when the body is
  \<open>null\<close> or \<open>undefined\<close>.
\<close>

datatype exn =
    TypeError string
  | ApiError nat string
  | NetworkError string

datatype jsval =
    JUndefined
  | JNull
  | JBool bool
  | JNumber int
  | JString string
  | JArray "jsval list"
  | JObject "(string \<times> jsval) list"

text \<open>Well-formed values: every object has distinct property names, as an in-memory object.\<close>

fun wf_jsval :: "jsval \<Rightarrow> bool" where
  "wf_jsval (JArray vs) = (\<forall>v \<in> set vs. wf_jsval v)"
| "wf_jsval (JObject kvs) = (distinct (map fst kvs) \<and> (\<forall>kv \<in> set kvs. wf_jsval (snd kv)))"
| "wf_jsval _ = True"

subsection \<open>ToBoolean\<close>

fun js_truthy :: "jsval \<Rightarrow> bool" where
  "js_truthy JUndefined = False"
| "js_truthy JNull = False"
| "js_truthy (JBool b) = b"
| "js_truthy (JNumber n) = (n \<noteq> 0)"
| "js_truthy (JString s) = (s \<noteq> [])"
| "js_truthy (JArray vs) = True"
| "js_truthy (JObject kvs) = True"

subsection \<open>Number::toString on safe integers\<close>

definition digit_char :: "nat \<Rightarrow> char" where
  "digit_char d = ''0123456789'' ! d"

fun nat_to_dec :: "nat \<Rightarrow> string" where
  "nat_to_dec n = (if n < 10 then [digit_char n] else nat_to_dec (n div 10) @ [digit_char (n mod 10)])"

declare nat_to_dec.simps [simp del]

definition int_to_dec :: "int \<Rightarrow> string" where
  "int_to_dec i = (if i < 0 then CHR ''-'' # nat_to_dec (nat (- i)) else nat_to_dec (nat i))"

subsection \<open>ToString\<close>

definition to_primitive_error :: exn where
  "to_primitive_error = TypeError ''Cannot convert object to primitive value''"

text \<open>
  \<open>Array.prototype.toString\<close> is \<open>join(",")\<close>: \<open>undefined\<close> and \<open>null\<close> elements give the
  empty string, the others their ToString, which may throw; the first exception wins.
  A plain object converts through \<open>Object.prototype.toString\<close> unless it has an own
  property \<open>toString\<close>: that property is data, not a function, so OrdinaryToPrimitive
  skips it, \<open>valueOf\<close> returns the object itself, and the conversion throws.
\<close>

fun js_to_string :: "jsval \<Rightarrow> exn + string" where
  "js_to_string JUndefined = Inr ''undefined''"
| "js_to_string JNull = Inr ''null''"
| "js_to_string (JBool b) = Inr (if b then ''true'' else ''false'')"
| "js_to_string (JNumber n) = Inr (int_to_dec n)"
| "js_to_string (JString s) = Inr s"
| "js_to_string (JArray vs) =
     (case seq_results
             (map (\<lambda>v. case v of JUndefined \<Rightarrow> Inr [] | JNull \<Rightarrow> Inr [] | _ \<Rightarrow> js_to_string v) vs) of
        Inl e \<Rightarrow> Inl e
      | Inr ss \<Rightarrow> Inr (join_with '','' ss))"
| "js_to_string (JObject kvs) =
     (if ''toString'' \<in> set (map fst kvs) then Inl to_primitive_error
      else Inr ''[object Object]'')"

text \<open>
  When ToString throws: on an object with an own \<open>toString\<close> property, and on an array
  that holds such a value at any depth of nested arrays.
\<close>

fun tostring_throws :: "jsval \<Rightarrow> bool" where
  "tostring_throws (JArray vs) = (\<exists>v \<in> set vs. tostring_throws v)"
| "tostring_throws (JObject kvs) = (''toString'' \<in> set (map fst kvs))"
| "tostring_throws _ = False"

text \<open>
  One element of an array being joined: \<open>undefined\<close> and \<open>null\<close> give the empty string.
  Naming it keeps the array equation of \<open>js_to_string\<close> from unfolding itself under the
  \<open>map\<close> when the elements are not known.
\<close>

definition array_elem_string :: "jsval \<Rightarrow> exn + string" where
  "array_elem_string v = (case v of JUndefined \<Rightarrow> Inr [] | JNull \<Rightarrow> Inr [] | _ \<Rightarrow> js_to_string v)"

subsection \<open>Property reads and destructuring\<close>

text \<open>
  \<open>js_get v k\<close> is \<open>v[k]\<close> for a property name \<open>k\<close> that no built-in prototype defines
  and that is not \<open>length\<close> or an index (the four names the handler reads are such):
  an object's own property, otherwise \<open>undefined\<close>; a boolean, number, string or array
  is boxed and has no such property.
\<close>

fun js_get :: "jsval \<Rightarrow> string \<Rightarrow> jsval" where
  "js_get (JObject kvs) k = (case map_of kvs k of Some v \<Rightarrow> v | None \<Rightarrow> JUndefined)"
| "js_get _ k = JUndefined"

definition destructure_error :: "string \<Rightarrow> string \<Rightarrow> string \<Rightarrow> exn" where
  "destructure_error key what state =
     TypeError (''Cannot destructure property '' @ [CHR 0x27] @ key @ [CHR 0x27] @ '' of ''
                @ [CHR 0x27] @ what @ [CHR 0x27] @ '' as it is '' @ state @ ''.'')"

text \<open>
  \<open>const {k1, k2, ...} = v\<close>: RequireObjectCoercible first (the message names the first
  property and the source text of the expression), then one read per property, in order.
\<close>

fun destructure :: "string \<Rightarrow> jsval \<Rightarrow> string list \<Rightarrow> exn + jsval list" where
  "destructure what JUndefined ks = Inl (destructure_error (hd (ks @ [''''])) what ''undefined'')"
| "destructure what JNull ks = Inl (destructure_error (hd (ks @ [''''])) what ''null'')"
| "destructure what v ks = Inr (map (js_get v) ks)"

subsection \<open>Evaluation rules\<close>

lemma js_to_string_JArray:
  "js_to_string (JArray vs) =
     (case seq_results (map array_elem_string vs) of Inl e \<Rightarrow> Inl e | Inr ss \<Rightarrow> Inr (join_with '','' ss))"
  unfolding array_elem_string_def [abs_def] by (rule js_to_string.simps(6))

declare js_to_string.simps(6) [simp del]
declare js_to_string_JArray [simp]

lemma array_elem_string_simps [simp]:
  "array_elem_string JUndefined = Inr []" "array_elem_string JNull = Inr []"
  "array_elem_string (JBool b) = js_to_string (JBool b)"
  "array_elem_string (JNumber n) = js_to_string (JNumber n)"
  "array_elem_string (JString s) = js_to_string (JString s)"
  "array_elem_string (JArray vs) = js_to_string (JArray vs)"
  "array_elem_string (JObject kvs) = js_to_string (JObject kvs)"
  by (simp_all add: array_elem_string_def)

lemma nat_to_dec_small [simp]: "n < 10 \<Longrightarrow> nat_to_dec n = [digit_char n]"
  by (simp add: nat_to_dec.simps)

lemma nat_to_dec_large [simp]:
  "\<not> n < 10 \<Longrightarrow> nat_to_dec n = nat_to_dec (n div 10) @ [digit_char (n mod 10)]"
  by (simp add: nat_to_dec.simps [of n])

text \<open>
  ToString, as a template literal applies it, throws exactly on the values
  \<open>tostring_throws\<close> describes, and then always with the TypeError of OrdinaryToPrimitive;
  in particular it never throws on a primitive.
\<close>

lemma js_to_string_result:
  "(case js_to_string v of
      Inl e \<Rightarrow> e = to_primitive_error \<and> tostring_throws v
    | Inr s \<Rightarrow> \<not> tostring_throws v)"
proof (induction v)
  case (JArray vs)
  let ?g = array_elem_string
  have elem: "v \<in> set vs \<Longrightarrow>
      (case ?g v of Inl e \<Rightarrow> e = to_primitive_error \<and> tostring_throws v | Inr s \<Rightarrow> \<not> tostring_throws v)" for v
    using JArray.IH [of v] by (cases v) simp_all
  show ?case
  proof (cases "seq_results (map ?g vs)")
    case (Inl e)
    then have "Inl e \<in> set (map ?g vs)" by (rule seq_results_Inl_mem)
    then obtain v where "v \<in> set vs" "?g v = Inl e" by auto
    with elem [of v] Inl show ?thesis by auto
  next
    case (Inr ss)
    then have "\<not> isl (seq_results (map ?g vs))" by simp
    have notl: "\<not> isl (?g v)" if "v \<in> set vs" for v
    proof
      assume "isl (?g v)"
      then obtain x where "?g v = Inl x" by (cases "?g v") auto
      with that have "isl (seq_results (map ?g vs))"
        unfolding seq_results_isl_iff by (metis image_eqI list.set_map)
      with \<open>\<not> isl (seq_results (map ?g vs))\<close> show False by contradiction
    qed
    have "\<not> tostring_throws v" if v: "v \<in> set vs" for v
    proof -
      from notl [OF v] obtain r where "?g v = Inr r" by (cases "?g v") auto
      with elem [OF v] show ?thesis by simp
    qed
    with Inr show ?thesis by simp
  qed
qed simp_all

end
