(* ===== verification/Json.thy ===== *)
theory Json
  imports JsValue
begin

text \<open>
  \<open>JSON.stringify\<close>, which line 66 of \<^verbatim>\<open>src/api/log.js\<close> applies to the payload before it
  is posted. The serializer follows ECMA-262's SerializeJSONProperty: \<open>undefined\<close> has no
  serialization (\<open>None\<close>), so an object property whose value is \<open>undefined\<close> is left out
  and an array element that is \<open>undefined\<close> is written \<open>null\<close>; numbers print as
  Number::toString; strings are quoted by QuoteJSONString, which escapes the quote, the
  backslash and every control character below 0x20 (the five with short escapes, the
  others as \<open>\u00xx\<close> in lower-case hex) and copies every other byte, so the UTF-8
  encoding of a non-ASCII character passes through unchanged.
\<close>

definition hex_digit :: "nat \<Rightarrow> char" where
  "hex_digit d = ''0123456789abcdef'' ! d"

definition json_escape_char :: "char \<Rightarrow> string" where
  "json_escape_char c =
     (if c = CHR 0x08 then [CHR 0x5C, CHR ''b'']
      else if c = CHR 0x09 then [CHR 0x5C, CHR ''t'']
      else if c = CHR 0x0A then [CHR 0x5C, CHR ''n'']
      else if c = CHR 0x0C then [CHR 0x5C, CHR ''f'']
      else if c = CHR 0x0D then [CHR 0x5C, CHR ''r'']
      else if c = CHR 0x22 then [CHR 0x5C, CHR 0x22]
      else if c = CHR 0x5C then [CHR 0x5C, CHR 0x5C]
      else if of_char c < (32::nat) then
        [CHR 0x5C, CHR ''u'', CHR ''0'', CHR ''0''] @ [hex_digit (of_char c div 16), hex_digit (of_char c mod 16)]
      else [c])"

definition json_quote :: "string \<Rightarrow> string" where
  "json_quote s = CHR 0x22 # concat (map json_escape_char s) @ [CHR 0x22]"

fun json_stringify :: "jsval \<Rightarrow> string option" where
  "json_stringify JUndefined = None"
| "json_stringify JNull = Some ''null''"
| "json_stringify (JBool b) = Some (if b then ''true'' else ''false'')"
| "json_stringify (JNumber n) = Some (int_to_dec n)"
| "json_stringify (JString s) = Some (json_quote s)"
| "json_stringify (JArray vs) =
     Some (''['' @ join_with '',''
                     (map (\<lambda>v. case json_stringify v of None \<Rightarrow> ''null'' | Some t \<Rightarrow> t) vs) @ '']'')"
| "json_stringify (JObject kvs) =
     Some (''{'' @ join_with '',''
                     (concat (map (\<lambda>kv. case json_stringify (snd kv) of
                                           None \<Rightarrow> []
                                         | Some t \<Rightarrow> [json_quote (fst kv) @ '':'' @ t]) kvs)) @ ''}'')"

text \<open>\<open>json_contains s v\<close>: the serialization of \<open>v\<close> exists and contains the text \<open>s\<close>.\<close>

definition json_contains :: "string \<Rightarrow> jsval \<Rightarrow> bool" where
  "json_contains s v \<longleftrightarrow> (\<exists>t. json_stringify v = Some t \<and> sublist s t)"

text \<open>A string that QuoteJSONString copies unchanged: no quote, backslash or control byte.\<close>

definition json_plain :: "string \<Rightarrow> bool" where
  "json_plain s \<longleftrightarrow> (\<forall>c \<in> set s. c \<noteq> CHR 0x22 \<and> c \<noteq> CHR 0x5C \<and> 32 \<le> (of_char c :: nat))"

subsection \<open>What a serialization contains\<close>

lemma json_stringify_array_member:
  assumes "v \<in> set vs" "json_stringify v = Some t"
  shows "\<exists>t'. json_stringify (JArray vs) = Some t' \<and> sublist t t'"
proof -
  have "t \<in> set (map (\<lambda>v. case json_stringify v of None \<Rightarrow> ''null'' | Some t \<Rightarrow> t) vs)"
    using assms by force
  then show ?thesis by (auto intro!: sublist_in_appendR sublist_in_appendL join_with_member)
qed

lemma json_stringify_object_member:
  assumes "(k, v) \<in> set kvs" "json_stringify v = Some t"
  shows "\<exists>t'. json_stringify (JObject kvs) = Some t' \<and> sublist t t'"
proof -
  have "json_quote k @ '':'' @ t \<in> set (concat (map (\<lambda>kv. case json_stringify (snd kv) of None \<Rightarrow> []
          | Some t \<Rightarrow> [json_quote (fst kv) @ '':'' @ t]) kvs))"
    using assms by force
  then have "sublist (json_quote k @ '':'' @ t) (join_with '','' (concat (map (\<lambda>kv. case json_stringify (snd kv) of None \<Rightarrow> []
          | Some t \<Rightarrow> [json_quote (fst kv) @ '':'' @ t]) kvs)))"
    by (rule join_with_member)
  then have "sublist t (join_with '','' (concat (map (\<lambda>kv. case json_stringify (snd kv) of None \<Rightarrow> []
          | Some t \<Rightarrow> [json_quote (fst kv) @ '':'' @ t]) kvs)))"
    by (rule sublist_trans [rotated]) (metis append.assoc sublist_append_leftI)
  then show ?thesis by (auto intro!: sublist_in_appendR sublist_in_appendL)
qed

lemma json_contains_string [intro]: "json_contains (json_quote x) (JString x)"
  by (simp add: json_contains_def)

lemma json_contains_array [intro]:
  "v \<in> set vs \<Longrightarrow> json_contains s v \<Longrightarrow> json_contains s (JArray vs)"
  unfolding json_contains_def by (meson json_stringify_array_member sublist_trans)

lemma json_contains_object [intro]:
  "(k, v) \<in> set kvs \<Longrightarrow> json_contains s v \<Longrightarrow> json_contains s (JObject kvs)"
  unfolding json_contains_def by (meson json_stringify_object_member sublist_trans)

lemma json_contains_sublist [intro]:
  "sublist s s' \<Longrightarrow> json_contains s' v \<Longrightarrow> json_contains s v"
  unfolding json_contains_def by (meson sublist_trans)

lemma json_escape_char_plain:
  "c \<noteq> CHR 0x22 \<Longrightarrow> c \<noteq> CHR 0x5C \<Longrightarrow> 32 \<le> (of_char c :: nat) \<Longrightarrow> json_escape_char c = [c]"
  by (auto simp: json_escape_char_def)

lemma json_quote_plain: "json_plain s \<Longrightarrow> json_quote s = CHR 0x22 # s @ [CHR 0x22]"
proof -
  assume "json_plain s"
  then have "concat (map json_escape_char s) = s"
    by (intro concat_map_singleton) (auto simp: json_plain_def json_escape_char_plain)
  then show ?thesis by (simp add: json_quote_def)
qed

end
