(* ===== verification/Handler.thy ===== *)
theory Handler
  imports Payload
begin

text \<open>
  The request handler of \<^verbatim>\<open>src/api/log.js\<close> (lines 4--89), as a function from its inputs to
  the sequence of observable effects it performs. The inputs are the configured webhook URL
  (\<open>process.env.DISCORD_WEBHOOK_URL\<close>: a string or \<open>undefined\<close>), the behaviour of the
  outbound \<open>fetch\<close> (an oracle from URL and request to a response or a rejection), and the
  request (its method and the result of reading \<open>req.body\<close>, which the platform's parser
  may make throw). The effects are \<open>console.error\<close> lines, the outbound call, and the
  response \<open>res.status(n).json(obj)\<close>. The body of the \<open>try\<close> block is \<open>handler_try\<close>,
  a computation of the exception/effect type of the prelude, with one \<open>cbind\<close> per
  statement that can throw and one \<open>emit\<close> per effect; \<open>handler\<close> adds the method check
  that precedes the \<open>try\<close> and the \<open>catch\<close> block. The two \<open>await\<close>s are applications of
  the oracle: the fetch resolves to a response whose \<open>text()\<close> may itself reject.
\<close>

record request =
  req_method :: string
  req_body :: "exn + jsval"

record outbound =
  out_method :: string
  out_headers :: "(string \<times> string) list"
  out_body :: "string option"

record fetch_response =
  resp_status :: nat
  resp_text :: "exn + string"

type_synonym fetch_oracle = "string \<Rightarrow> outbound \<Rightarrow> exn + fetch_response"

datatype log_arg = LogText string | LogNumber nat | LogError exn

datatype effect =
    ConsoleError "log_arg list"
  | Fetch string outbound
  | Respond nat jsval

type_synonym 'a handler_comp = "(exn, effect, 'a) comp"

text \<open>\<open>Response.ok\<close>: the status is in the range 200--299.\<close>

definition resp_ok :: "fetch_response \<Rightarrow> bool" where
  "resp_ok r \<longleftrightarrow> 200 \<le> resp_status r \<and> resp_status r \<le> 299"

definition message_body :: "string \<Rightarrow> jsval" where
  "message_body msg = JObject [(''message'', JString msg)]"

definition respond :: "nat \<Rightarrow> string \<Rightarrow> unit handler_comp" where
  "respond status msg = emit (Respond status (message_body msg))"

text \<open>\<open>process.env.X\<close> is a string or \<open>undefined\<close>.\<close>

definition env_value :: "string option \<Rightarrow> jsval" where
  "env_value v = (case v of None \<Rightarrow> JUndefined | Some s \<Rightarrow> JString s)"

definition discord_request :: "jsval \<Rightarrow> outbound" where
  "discord_request payload =
     \<lparr>out_method = ''POST'',
      out_headers = [(''Content-Type'', ''application/json'')],
      out_body = json_stringify payload\<rparr>"

text \<open>\<open>await fetch(url, init)\<close>: the call is made, then the promise settles.\<close>

definition fetch_call :: "fetch_oracle \<Rightarrow> string \<Rightarrow> outbound \<Rightarrow> fetch_response handler_comp" where
  "fetch_call fetch url init = cbind (emit (Fetch url init)) (\<lambda>_. lift (fetch url init))"

definition body_keys :: "string list" where
  "body_keys = [''username'', ''password'', ''userAgent'', ''timestamp'']"

definition handler_try :: "string option \<Rightarrow> fetch_oracle \<Rightarrow> request \<Rightarrow> unit handler_comp" where
  "handler_try webhook fetch req =
     cbind (lift (req_body req)) (\<lambda>body.
     cbind (lift (destructure ''req.body'' body body_keys)) (\<lambda>fs.
     let username = fs ! 0; password = fs ! 1; userAgent = fs ! 2; timestamp = fs ! 3 in
     if \<not> js_truthy username \<or> \<not> js_truthy password
     then respond 400 ''Username and password are required.''
     else
     cbind (lift (discord_payload username password userAgent timestamp)) (\<lambda>payload.
     if \<not> js_truthy (env_value webhook)
     then cbind (emit (ConsoleError [LogText ''DISCORD_WEBHOOK_URL is not set in environment variables.'']))
            (\<lambda>_. respond 500 ''Server configuration error.'')
     else
     cbind (fetch_call fetch (the webhook) (discord_request payload)) (\<lambda>discordResponse.
     if \<not> resp_ok discordResponse
     then cbind (lift (resp_text discordResponse)) (\<lambda>errorBody.
          cbind (emit (ConsoleError [LogText ''Failed to send to Discord:'',
                                     LogNumber (resp_status discordResponse), LogText errorBody]))
            (\<lambda>_. respond 500 ''Failed to log data.''))
     else respond 200 ''Log received successfully.''))))"

definition handler_catch :: "exn \<Rightarrow> unit handler_comp" where
  "handler_catch error =
     cbind (emit (ConsoleError [LogText ''An unexpected error occurred in the API function:'', LogError error]))
       (\<lambda>_. respond 500 ''An internal server error occurred.'')"

definition handler :: "string option \<Rightarrow> fetch_oracle \<Rightarrow> request \<Rightarrow> effect list" where
  "handler webhook fetch req =
     (if req_method req \<noteq> ''POST'' then snd (respond 405 ''Method Not Allowed'')
      else snd (try_catch (handler_try webhook fetch req) handler_catch))"

subsection \<open>Observations on a run\<close>

fun is_response :: "effect \<Rightarrow> bool" where
  "is_response (Respond _ _) = True"
| "is_response _ = False"

fun is_fetch :: "effect \<Rightarrow> bool" where
  "is_fetch (Fetch _ _) = True"
| "is_fetch _ = False"

text \<open>Server-side log lines, and responses with status 500.\<close>

fun is_log :: "effect \<Rightarrow> bool" where
  "is_log (ConsoleError _) = True"
| "is_log _ = False"

fun is_server_error :: "effect \<Rightarrow> bool" where
  "is_server_error (Respond status _) = (status = 500)"
| "is_server_error _ = False"

text \<open>The four fields the handler reads, and the payload it builds from them.\<close>

abbreviation submission_payload :: "jsval \<Rightarrow> exn + jsval" where
  "submission_payload b \<equiv>
     discord_payload (js_get b ''username'') (js_get b ''password'') (js_get b ''userAgent'') (js_get b ''timestamp'')"

text \<open>
  The fixed effects of the handler, named: the six responses and the three log lines.
  They keep the normal form below small, so that proofs over all runs split cases without
  carrying the message texts along.
\<close>

definition resp_method_not_allowed :: effect where
  "resp_method_not_allowed = Respond 405 (message_body ''Method Not Allowed'')"

definition resp_validation_error :: effect where
  "resp_validation_error = Respond 400 (message_body ''Username and password are required.'')"

definition resp_config_error :: effect where
  "resp_config_error = Respond 500 (message_body ''Server configuration error.'')"

definition resp_forward_failed :: effect where
  "resp_forward_failed = Respond 500 (message_body ''Failed to log data.'')"

definition resp_success :: effect where
  "resp_success = Respond 200 (message_body ''Log received successfully.'')"

definition resp_internal_error :: effect where
  "resp_internal_error = Respond 500 (message_body ''An internal server error occurred.'')"

definition log_config_missing :: effect where
  "log_config_missing = ConsoleError [LogText ''DISCORD_WEBHOOK_URL is not set in environment variables.'']"

definition log_forward_failed :: "nat \<Rightarrow> string \<Rightarrow> effect" where
  "log_forward_failed status text =
     ConsoleError [LogText ''Failed to send to Discord:'', LogNumber status, LogText text]"

definition log_unexpected :: "exn \<Rightarrow> effect" where
  "log_unexpected e = ConsoleError [LogText ''An unexpected error occurred in the API function:'', LogError e]"

text \<open>Every response the handler can send.\<close>

definition public_responses :: "effect list" where
  "public_responses =
     [resp_method_not_allowed, resp_validation_error, resp_config_error, resp_forward_failed,
      resp_success, resp_internal_error]"

text \<open>The same fetch behaviour, with the text of every downstream response rewritten by \<open>g\<close>.\<close>

definition with_error_text :: "(string \<Rightarrow> string) \<Rightarrow> fetch_oracle \<Rightarrow> fetch_oracle" where
  "with_error_text g fetch =
     (\<lambda>url init. map_sum id (\<lambda>r. r\<lparr>resp_text := map_sum id g (resp_text r)\<rparr>) (fetch url init))"

definition fields_ok :: "jsval \<Rightarrow> bool" where
  "fields_ok b \<longleftrightarrow> js_truthy (js_get b ''username'') \<and> js_truthy (js_get b ''password'')"

lemma destructure_eq:
  "destructure what v ks =
     (if v = JUndefined \<or> v = JNull
      then Inl (destructure_error (hd (ks @ [''''])) what (if v = JUndefined then ''undefined'' else ''null''))
      else Inr (map (js_get v) ks))"
  by (cases v) auto

lemmas handler_unfold = handler_def handler_try_def handler_catch_def respond_def fetch_call_def
  body_keys_def Let_def destructure_eq env_value_def

lemmas handler_try_unfold = handler_try_def respond_def fetch_call_def Let_def

lemmas handler_effect_defs = resp_method_not_allowed_def resp_validation_error_def
  resp_config_error_def resp_forward_failed_def resp_success_def resp_internal_error_def
  log_config_missing_def log_forward_failed_def log_unexpected_def

lemma is_response_effects [simp]:
  "is_response resp_method_not_allowed" "is_response resp_validation_error"
  "is_response resp_config_error" "is_response resp_forward_failed"
  "is_response resp_success" "is_response resp_internal_error"
  "\<not> is_response log_config_missing" "\<not> is_response (log_forward_failed n t)"
  "\<not> is_response (log_unexpected e)"
  by (simp_all add: handler_effect_defs)

lemma is_fetch_effects [simp]:
  "\<not> is_fetch resp_method_not_allowed" "\<not> is_fetch resp_validation_error"
  "\<not> is_fetch resp_config_error" "\<not> is_fetch resp_forward_failed"
  "\<not> is_fetch resp_success" "\<not> is_fetch resp_internal_error"
  "\<not> is_fetch log_config_missing" "\<not> is_fetch (log_forward_failed n t)"
  "\<not> is_fetch (log_unexpected e)"
  by (simp_all add: handler_effect_defs)

lemma response_effects_distinct [simp]:
  "resp_method_not_allowed \<noteq> resp_validation_error" "resp_method_not_allowed \<noteq> resp_config_error"
  "resp_method_not_allowed \<noteq> resp_forward_failed" "resp_method_not_allowed \<noteq> resp_success"
  "resp_method_not_allowed \<noteq> resp_internal_error" "resp_validation_error \<noteq> resp_method_not_allowed"
  "resp_validation_error \<noteq> resp_config_error" "resp_validation_error \<noteq> resp_forward_failed"
  "resp_validation_error \<noteq> resp_success" "resp_validation_error \<noteq> resp_internal_error"
  "resp_config_error \<noteq> resp_method_not_allowed" "resp_config_error \<noteq> resp_validation_error"
  "resp_config_error \<noteq> resp_forward_failed" "resp_config_error \<noteq> resp_success"
  "resp_config_error \<noteq> resp_internal_error" "resp_forward_failed \<noteq> resp_method_not_allowed"
  "resp_forward_failed \<noteq> resp_validation_error" "resp_forward_failed \<noteq> resp_config_error"
  "resp_forward_failed \<noteq> resp_success" "resp_forward_failed \<noteq> resp_internal_error"
  "resp_success \<noteq> resp_method_not_allowed" "resp_success \<noteq> resp_validation_error"
  "resp_success \<noteq> resp_config_error" "resp_success \<noteq> resp_forward_failed"
  "resp_success \<noteq> resp_internal_error" "resp_internal_error \<noteq> resp_method_not_allowed"
  "resp_internal_error \<noteq> resp_validation_error" "resp_internal_error \<noteq> resp_config_error"
  "resp_internal_error \<noteq> resp_forward_failed" "resp_internal_error \<noteq> resp_success"
  by (simp_all add: handler_effect_defs message_body_def)

lemma fetch_ne_effects [simp]:
  "Fetch u i \<noteq> resp_method_not_allowed" "Fetch u i \<noteq> resp_validation_error"
  "Fetch u i \<noteq> resp_config_error" "Fetch u i \<noteq> resp_forward_failed"
  "Fetch u i \<noteq> resp_success" "Fetch u i \<noteq> resp_internal_error"
  "Fetch u i \<noteq> log_config_missing" "Fetch u i \<noteq> log_forward_failed n t"
  "Fetch u i \<noteq> log_unexpected e"
  by (simp_all add: handler_effect_defs)

subsection \<open>Behaviour on each branch\<close>

text \<open>
  C1. A request whose method is not POST is answered 405 "Method Not Allowed" and nothing
  else happens: no body is read, nothing is logged, no outbound call is made.
\<close>

theorem handler_method_not_allowed:
  "req_method req \<noteq> ''POST'' \<Longrightarrow> handler w f req = [Respond 405 (message_body ''Method Not Allowed'')]"
  by (simp add: handler_def respond_def comp_simps)

text \<open>
  C2. A POST whose body is an object-coercible value with a falsy \<open>username\<close> or a falsy
  \<open>password\<close> (missing, empty string, \<open>null\<close>, \<open>false\<close>, \<open>0\<close>) is answered 400 and
  nothing else happens: in particular no outbound call.
\<close>

theorem handler_validation_error:
  assumes "req_method req = ''POST''" "req_body req = Inr b" "b \<noteq> JUndefined" "b \<noteq> JNull"
    and "\<not> js_truthy (js_get b ''username'') \<or> \<not> js_truthy (js_get b ''password'')"
  shows "handler w f req = [Respond 400 (message_body ''Username and password are required.'')]"
  using assms by (auto simp: handler_unfold comp_simps)

text \<open>
  C3. With valid credentials, a payload that builds, and no webhook URL configured (unset
  or empty), the handler logs the configuration error and answers 500 "Server
  configuration error." without any outbound call.
\<close>

theorem handler_config_error:
  assumes "req_method req = ''POST''" "req_body req = Inr b" "b \<noteq> JUndefined" "b \<noteq> JNull"
    and "js_truthy (js_get b ''username'')" "js_truthy (js_get b ''password'')"
    and "submission_payload b = Inr pl" "\<not> js_truthy (env_value w)"
  shows "handler w f req =
           [ConsoleError [LogText ''DISCORD_WEBHOOK_URL is not set in environment variables.''],
            Respond 500 (message_body ''Server configuration error.'')]"
  using assms by (simp add: handler_unfold comp_simps)

text \<open>
  C4. With valid credentials and a configured URL, the handler makes exactly one outbound
  call, a JSON POST of the serialized payload to that URL, and when the downstream answers
  with a 2xx status it answers 200 "Log received successfully.".
\<close>

theorem handler_forwarded:
  assumes "req_method req = ''POST''" "req_body req = Inr b" "b \<noteq> JUndefined" "b \<noteq> JNull"
    and "js_truthy (js_get b ''username'')" "js_truthy (js_get b ''password'')"
    and "submission_payload b = Inr pl" "w = Some url" "url \<noteq> []"
    and "f url (discord_request pl) = Inr r" "resp_ok r"
  shows "handler w f req =
           [Fetch url (discord_request pl), Respond 200 (message_body ''Log received successfully.'')]"
  using assms by (simp add: handler_unfold comp_simps)

text \<open>
  C5. When the downstream answers with a status outside 2xx, its body is read and logged
  with the status, and the caller gets 500 "Failed to log data.".
\<close>

theorem handler_forward_failed:
  assumes "req_method req = ''POST''" "req_body req = Inr b" "b \<noteq> JUndefined" "b \<noteq> JNull"
    and "js_truthy (js_get b ''username'')" "js_truthy (js_get b ''password'')"
    and "submission_payload b = Inr pl" "w = Some url" "url \<noteq> []"
    and "f url (discord_request pl) = Inr r" "\<not> resp_ok r" "resp_text r = Inr t"
  shows "handler w f req =
           [Fetch url (discord_request pl),
            ConsoleError [LogText ''Failed to send to Discord:'', LogNumber (resp_status r), LogText t],
            Respond 500 (message_body ''Failed to log data.'')]"
  using assms by (simp add: handler_unfold comp_simps)

text \<open>
  C6. When the outbound call rejects (a network failure), the exception reaches the
  top-level catch: it is logged and the caller gets 500 "An internal server error
  occurred.".
\<close>

theorem handler_fetch_rejected:
  assumes "req_method req = ''POST''" "req_body req = Inr b" "b \<noteq> JUndefined" "b \<noteq> JNull"
    and "js_truthy (js_get b ''username'')" "js_truthy (js_get b ''password'')"
    and "submission_payload b = Inr pl" "w = Some url" "url \<noteq> []"
    and "f url (discord_request pl) = Inl e"
  shows "handler w f req =
           [Fetch url (discord_request pl),
            ConsoleError [LogText ''An unexpected error occurred in the API function:'', LogError e],
            Respond 500 (message_body ''An internal server error occurred.'')]"
  using assms by (simp add: handler_unfold comp_simps)

text \<open>
  C16. When reading \<open>req.body\<close> throws (the platform rejects a malformed JSON body), the
  error is caught at the top level, logged, and answered 500 "An internal server error
  occurred."; nothing else happens.
\<close>

theorem handler_body_unreadable:
  assumes "req_method req = ''POST''" "req_body req = Inl e"
  shows "handler w f req =
           [ConsoleError [LogText ''An unexpected error occurred in the API function:'', LogError e],
            Respond 500 (message_body ''An internal server error occurred.'')]"
  using assms by (simp add: handler_unfold comp_simps)

text \<open>
  C17. A POST whose body is \<open>null\<close> (no body sent) or \<open>undefined\<close> is not answered 400:
  destructuring it throws a TypeError naming \<open>username\<close>, which the top-level catch logs
  and answers 500 "An internal server error occurred.".
\<close>

theorem handler_body_nullish:
  assumes "req_method req = ''POST''" "req_body req = Inr b" "b = JNull \<or> b = JUndefined"
  shows "handler w f req =
           [ConsoleError [LogText ''An unexpected error occurred in the API function:'',
                          LogError (destructure_error ''username'' ''req.body''
                                      (if b = JNull then ''null'' else ''undefined''))],
            Respond 500 (message_body ''An internal server error occurred.'')]"
  using assms by (auto simp: handler_unfold comp_simps)

subsection \<open>Normal form of a run\<close>

text \<open>
  The protected block and the whole handler with every intermediate result named: each
  property of all runs below is a case split over these equations.
\<close>

lemma handler_try_eq:
  "handler_try w f req =
    (case req_body req of
       Inl e \<Rightarrow> (Inl e, [])
     | Inr b \<Rightarrow>
       if b = JUndefined \<or> b = JNull then (Inl (destructure_error ''username'' ''req.body'' (if b = JUndefined then ''undefined'' else ''null'')), [])
       else if \<not> fields_ok b then (Inr (), [resp_validation_error])
       else case submission_payload b of
         Inl e \<Rightarrow> (Inl e, [])
       | Inr pl \<Rightarrow>
         if \<not> js_truthy (env_value w)
         then (Inr (), [log_config_missing, resp_config_error])
         else case f (the w) (discord_request pl) of
           Inl e \<Rightarrow> (Inl e, [Fetch (the w) (discord_request pl)])
         | Inr r \<Rightarrow>
           if resp_ok r then (Inr (), [Fetch (the w) (discord_request pl), resp_success])
           else case resp_text r of
             Inl e \<Rightarrow> (Inl e, [Fetch (the w) (discord_request pl)])
           | Inr t \<Rightarrow> (Inr (), [Fetch (the w) (discord_request pl),
                 log_forward_failed (resp_status r) t, resp_forward_failed]))"
  by (simp add: handler_try_unfold fields_ok_def body_keys_def destructure_eq comp_simps handler_effect_defs
         split: sum.split)

lemma handler_eq:
  "handler w f req =
     (if req_method req \<noteq> ''POST'' then [resp_method_not_allowed]
      else snd (handler_try w f req) @
        (case fst (handler_try w f req) of
           Inl e \<Rightarrow> [log_unexpected e, resp_internal_error]
         | Inr _ \<Rightarrow> []))"
  by (simp add: handler_def handler_catch_def respond_def comp_trace handler_effect_defs split: sum.split)

text \<open>What the log and the status observe of the named effects, and of the protected block.\<close>

lemma effect_observations [simp]:
  "\<not> is_log resp_method_not_allowed" "\<not> is_log resp_validation_error" "\<not> is_log resp_config_error"
  "\<not> is_log resp_forward_failed" "\<not> is_log resp_success" "\<not> is_log resp_internal_error"
  "is_log log_config_missing" "is_log (log_forward_failed n t)" "is_log (log_unexpected e)"
  "\<not> is_server_error resp_method_not_allowed" "\<not> is_server_error resp_validation_error"
  "is_server_error resp_config_error" "is_server_error resp_forward_failed" "\<not> is_server_error resp_success"
  "is_server_error resp_internal_error" "\<not> is_server_error log_config_missing"
  "\<not> is_server_error (log_forward_failed n t)" "\<not> is_server_error (log_unexpected e)"
  "\<not> is_log (Fetch u i)" "\<not> is_server_error (Fetch u i)"
  by (simp_all add: handler_effect_defs)

lemma handler_try_logs:
  "length (filter is_log (snd (handler_try w f req))) =
     (if list_ex is_server_error (snd (handler_try w f req)) then 1 else 0)"
  "case fst (handler_try w f req) of
     Inl _ \<Rightarrow> filter is_log (snd (handler_try w f req)) = [] \<and> \<not> list_ex is_server_error (snd (handler_try w f req))
   | Inr _ \<Rightarrow> True"
  by (simp_all add: handler_try_eq split: sum.split)

lemma with_error_text_case:
  "with_error_text g f u i =
     (case f u i of Inl e \<Rightarrow> Inl e | Inr r \<Rightarrow> Inr (r\<lparr>resp_text := map_sum id g (resp_text r)\<rparr>))"
  by (simp add: with_error_text_def split: sum.split)

lemma resp_ok_text_update [simp]: "resp_ok (r\<lparr>resp_text := x\<rparr>) = resp_ok r"
  by (simp add: resp_ok_def)

text \<open>An outbound call carries the payload built from the request's own body.\<close>

lemma handler_fetch_payload:
  assumes "Fetch url init \<in> set (handler w f req)"
  shows "\<exists>b pl. req_body req = Inr b \<and> submission_payload b = Inr pl \<and> init = discord_request pl"
  using assms by (auto simp: handler_eq handler_try_eq split: sum.splits if_splits)

subsection \<open>Properties of every run\<close>

text \<open>
  C7. Every request gets exactly one response, and it is the last thing the handler does:
  no path sends twice, none leaves the caller without an answer, and nothing follows it.
\<close>

theorem handler_single_response:
  "length (filter is_response (handler w f req)) = 1 \<and> is_response (last (handler w f req))"
  by (simp add: handler_eq handler_try_eq split: sum.split)

text \<open>C8. Every request causes at most one outbound call: nothing is retried.\<close>

theorem handler_fetch_at_most_once: "length (filter is_fetch (handler w f req)) \<le> 1"
  by (simp add: handler_eq handler_try_eq split: sum.split)

text \<open>
  C9. An outbound call happens only for a POST whose body has a truthy username and a
  truthy password, with a non-empty configured URL; it goes to that URL and carries the
  serialized payload built from the request's own fields.
\<close>

theorem handler_fetch_guard:
  assumes "Fetch url init \<in> set (handler w f req)"
  shows "req_method req = ''POST'' \<and> w = Some url \<and> url \<noteq> [] \<and>
         (\<exists>b pl. req_body req = Inr b \<and> js_truthy (js_get b ''username'') \<and>
                 js_truthy (js_get b ''password'') \<and> submission_payload b = Inr pl \<and>
                 init = discord_request pl)"
  using assms
  by (auto simp: handler_eq handler_try_eq fields_ok_def env_value_def
           split: sum.splits if_splits option.splits)

text \<open>
  C10. Whatever the request and whatever the downstream does, every response the handler
  sends is one of the six fixed responses of the error taxonomy.
\<close>

theorem handler_public_messages:
  "set (filter is_response (handler w f req)) \<subseteq> set public_responses"
  by (auto simp: handler_eq handler_try_eq public_responses_def split: sum.splits)

lemma handler_try_error_text:
  "filter is_response (snd (handler_try w (with_error_text g f) req)) =
     filter is_response (snd (handler_try w f req)) \<and>
   fst (handler_try w (with_error_text g f) req) = fst (handler_try w f req)"
  by (simp add: handler_try_eq with_error_text_case split: sum.split)

text \<open>
  C11. The downstream's error text never reaches the caller: rewriting the body of every
  downstream response leaves the responses the handler sends unchanged.
\<close>

theorem handler_downstream_text_hidden:
  "filter is_response (handler w (with_error_text g f) req) = filter is_response (handler w f req)"
  using handler_try_error_text [of w g f req] by (simp add: handler_eq)

text \<open>
  C28. The server logs exactly when it answers 500: a run has one \<open>console.error\<close> line if
  the caller gets a 500 (configuration error, forwarding failure or internal error) and
  none otherwise (spec, section 4.1: one server-side log line on configuration error,
  outbound failure or uncaught exception).
\<close>

theorem handler_logs_server_errors:
  "length (filter is_log (handler w f req)) = (if list_ex is_server_error (handler w f req) then 1 else 0)"
proof (cases "fst (handler_try w f req)")
  case (Inl e)
  then show ?thesis using handler_try_logs(2) [of w f req] by (simp add: handler_eq)
next
  case (Inr u)
  then show ?thesis using handler_try_logs(1) [of w f req] by (auto simp: handler_eq split: if_splits)
qed

end
