(* ===== verification/Contract.thy ===== *)
theory Contract
  imports Handler
begin

text \<open>
  The contract the spec states for the handler (spec.md, sections 4.1 and 6): its error
  taxonomy as a datatype, the response each outcome is reported with, and the outcome the
  spec assigns to an input, following the spec's steps in the spec's order (method,
  field validation, configuration, payload construction, outbound delivery, downstream
  status, and any exception as an internal error). The spec's "missing or empty" username
  or password is read as JavaScript falsiness, the test the code applies, and a \<open>null\<close>
  or \<open>undefined\<close> body has both fields missing. The refinement theorem says exactly on
  which inputs the handler's response is the contract's: all but two classes, a body with
  no fields and a payload that cannot be built while the URL is missing.
\<close>

datatype outcome =
    MethodNotAllowed
  | ValidationError
  | ServerConfigurationError
  | ForwardingFailed
  | Forwarded
  | InternalError

primrec outcome_response :: "outcome \<Rightarrow> effect" where
  "outcome_response MethodNotAllowed = resp_method_not_allowed"
| "outcome_response ValidationError = resp_validation_error"
| "outcome_response ServerConfigurationError = resp_config_error"
| "outcome_response ForwardingFailed = resp_forward_failed"
| "outcome_response Forwarded = resp_success"
| "outcome_response InternalError = resp_internal_error"

definition spec_outcome :: "string option \<Rightarrow> fetch_oracle \<Rightarrow> request \<Rightarrow> outcome" where
  "spec_outcome w f req =
     (if req_method req \<noteq> ''POST'' then MethodNotAllowed
      else case req_body req of
        Inl _ \<Rightarrow> InternalError
      | Inr b \<Rightarrow>
        if b = JUndefined \<or> b = JNull \<or> \<not> fields_ok b then ValidationError
        else if \<not> js_truthy (env_value w) then ServerConfigurationError
        else case submission_payload b of
          Inl _ \<Rightarrow> InternalError
        | Inr pl \<Rightarrow>
          case f (the w) (discord_request pl) of
            Inl _ \<Rightarrow> InternalError
          | Inr r \<Rightarrow>
            if resp_ok r then Forwarded
            else case resp_text r of Inl _ \<Rightarrow> InternalError | Inr _ \<Rightarrow> ForwardingFailed)"

text \<open>The inputs on which the code and the contract part ways.\<close>

definition spec_divergent :: "string option \<Rightarrow> request \<Rightarrow> bool" where
  "spec_divergent w req \<longleftrightarrow>
     req_method req = ''POST'' \<and>
     (case req_body req of
        Inl _ \<Rightarrow> False
      | Inr b \<Rightarrow> b = JUndefined \<or> b = JNull \<or>
                 (fields_ok b \<and> \<not> js_truthy (env_value w) \<and> isl (submission_payload b)))"

lemma outcome_response_inj [simp]: "outcome_response a = outcome_response b \<longleftrightarrow> a = b"
  by (cases a; cases b) simp_all

lemmas contract_unfold = handler_eq handler_try_eq spec_outcome_def spec_divergent_def

text \<open>
  C18. The handler implements the spec's contract everywhere but on the divergent inputs:
  its one response is the response of the outcome the spec assigns if and only if the
  input is not divergent. So the error taxonomy of the spec is exactly what the code
  reports, apart from the two orderings the findings describe.
\<close>

theorem handler_refines_contract:
  "filter is_response (handler w f req) = [outcome_response (spec_outcome w f req)]
     \<longleftrightarrow> \<not> spec_divergent w req"
proof (cases "req_method req = ''POST''")
  case False
  then show ?thesis by (simp add: contract_unfold)
next
  case post: True
  show ?thesis
  proof (cases "req_body req")
    case (Inl e)
    with post show ?thesis by (simp add: contract_unfold)
  next
    case body: (Inr b)
    show ?thesis
    proof (cases "b = JUndefined \<or> b = JNull")
      case True
      with post body show ?thesis by (auto simp: contract_unfold)
    next
      case defined: False
      show ?thesis
      proof (cases "fields_ok b")
        case False
        with post body defined show ?thesis by (simp add: contract_unfold)
      next
        case fields: True
        show ?thesis
        proof (cases "submission_payload b")
          case (Inl e)
          with post body defined fields show ?thesis by (simp add: contract_unfold)
        next
          case payload: (Inr pl)
          show ?thesis
          proof (cases "js_truthy (env_value w)")
            case False
            with post body defined fields payload show ?thesis by (simp add: contract_unfold)
          next
            case configured: True
            with post body defined fields payload show ?thesis
              by (simp add: contract_unfold split: sum.split)
          qed
        qed
      qed
    qed
  qed
qed

end
