(* ===== verification/JsonParse.thy ===== *)
theory JsonParse
  imports Json
begin

text \<open>
  A JSON decoder, the reading side of the outbound body: what the webhook endpoint does
  with the text the handler posts. It follows the JSON grammar (RFC 8259) on the values the
  model has: \<open>null\<close>, \<open>true\<close>, \<open>false\<close>, integers without leading zeros, strings with the
  escapes \<open>\" \\ \/ \b \f \n \r \t\<close> and \<open>\uXXXX\<close> (decoded to UTF-8; surrogates are not
  modelled), arrays and objects, with white space between tokens. Fractions and exponents
  are outside the model and rejected. The recursion over values is given fuel; the lemmas
  show how much is enough. The main result is the roundtrip: decoding the serialization of
  a value gives the value back, with the \<open>undefined\<close> properties dropped and the
  \<open>undefined\<close> array elements read as \<open>null\<close>, as \<open>JSON.stringify\<close> wrote them.
\<close>

definition is_digit :: "char \<Rightarrow> bool" where
  "is_digit c \<longleftrightarrow> 48 \<le> (of_char c :: nat) \<and> (of_char c :: nat) \<le> 57"

definition hex_val :: "char \<Rightarrow> nat option" where
  "hex_val c =
     (let n = (of_char c :: nat) in
      if 48 \<le> n \<and> n \<le> 57 then Some (n - 48)
      else if 97 \<le> n \<and> n \<le> 102 then Some (n - 87)
      else if 65 \<le> n \<and> n \<le> 70 then Some (n - 55)
      else None)"

definition hex4_val :: "char \<Rightarrow> char \<Rightarrow> char \<Rightarrow> char \<Rightarrow> nat option" where
  "hex4_val a b c d =
     (case (hex_val a, hex_val b, hex_val c, hex_val d) of
        (Some x, Some y, Some z, Some w) \<Rightarrow> Some (((x * 16 + y) * 16 + z) * 16 + w)
      | _ \<Rightarrow> None)"

text \<open>UTF-8 encoding of a code point of the Basic Multilingual Plane outside the surrogates.\<close>

definition utf8_encode :: "nat \<Rightarrow> string option" where
  "utf8_encode cp =
     (if cp < 128 then Some [char_of cp]
      else if cp < 2048 then Some [char_of (192 + cp div 64), char_of (128 + cp mod 64)]
      else if 55296 \<le> cp \<and> cp < 57344 then None
      else if cp < 65536 then
        Some [char_of (224 + cp div 4096), char_of (128 + (cp div 64) mod 64), char_of (128 + cp mod 64)]
      else None)"

definition is_ws :: "char \<Rightarrow> bool" where
  "is_ws c \<longleftrightarrow> c = CHR '' '' \<or> c = CHR 0x09 \<or> c = CHR 0x0A \<or> c = CHR 0x0D"

definition skip_ws :: "string \<Rightarrow> string" where
  "skip_ws s = dropWhile is_ws s"

text \<open>
  The body of a string literal, after its opening quote: the decoded text and what follows
  the closing quote. \<open>parse_esc\<close> reads what follows a backslash.
\<close>

fun parse_str :: "string \<Rightarrow> (string \<times> string) option"
  and parse_esc :: "string \<Rightarrow> (string \<times> string) option" where
  "parse_str [] = None"
| "parse_str (c # cs) =
     (if c = CHR 0x22 then Some ([], cs)
      else if c = CHR 0x5C then parse_esc cs
      else if (of_char c :: nat) < 32 then None
      else map_option (\<lambda>(s, r). (c # s, r)) (parse_str cs))"
| "parse_esc [] = None"
| "parse_esc (e # cs) =
     (if e = CHR 0x22 \<or> e = CHR 0x5C \<or> e = CHR ''/'' then map_option (\<lambda>(s, r). (e # s, r)) (parse_str cs)
      else if e = CHR ''b'' then map_option (\<lambda>(s, r). (CHR 0x08 # s, r)) (parse_str cs)
      else if e = CHR ''f'' then map_option (\<lambda>(s, r). (CHR 0x0C # s, r)) (parse_str cs)
      else if e = CHR ''n'' then map_option (\<lambda>(s, r). (CHR 0x0A # s, r)) (parse_str cs)
      else if e = CHR ''r'' then map_option (\<lambda>(s, r). (CHR 0x0D # s, r)) (parse_str cs)
      else if e = CHR ''t'' then map_option (\<lambda>(s, r). (CHR 0x09 # s, r)) (parse_str cs)
      else if e = CHR ''u'' then
        (case cs of
           a # b # c # d # cs' \<Rightarrow>
             (case hex4_val a b c d of
                None \<Rightarrow> None
              | Some cp \<Rightarrow>
                  (case utf8_encode cp of
                     None \<Rightarrow> None
                   | Some bytes \<Rightarrow> map_option (\<lambda>(s, r). (bytes @ s, r)) (parse_str cs')))
         | _ \<Rightarrow> None)
      else None)"

text \<open>Integers: an optional minus sign and digits without a leading zero; a fraction or an
  exponent is rejected, since the model's numbers are integers.\<close>

definition dec_value :: "string \<Rightarrow> nat" where
  "dec_value ds = foldl (\<lambda>n c. 10 * n + (of_char c - 48)) 0 ds"

definition parse_int :: "string \<Rightarrow> (int \<times> string) option" where
  "parse_int s =
     (let neg = (s \<noteq> [] \<and> hd s = CHR ''-'');
          s1 = (if neg then tl s else s);
          ds = takeWhile is_digit s1;
          r = dropWhile is_digit s1
      in if ds = [] \<or> (hd ds = CHR ''0'' \<and> 1 < length ds) then None
         else if r \<noteq> [] \<and> (hd r = CHR ''.'' \<or> hd r = CHR ''e'' \<or> hd r = CHR ''E'') then None
         else Some ((if neg then - int (dec_value ds) else int (dec_value ds)), r))"

fun parse_value :: "nat \<Rightarrow> string \<Rightarrow> (jsval \<times> string) option"
  and parse_elems :: "nat \<Rightarrow> string \<Rightarrow> (jsval list \<times> string) option"
  and parse_members :: "nat \<Rightarrow> string \<Rightarrow> ((string \<times> jsval) list \<times> string) option" where
  "parse_value 0 s = None"
| "parse_value (Suc n) s =
     (case skip_ws s of
        [] \<Rightarrow> None
      | c # r \<Rightarrow>
          if c = CHR ''{'' then
            (case skip_ws r of
               [] \<Rightarrow> None
             | d # r' \<Rightarrow> if d = CHR ''}'' then Some (JObject [], r')
                         else map_option (\<lambda>(kvs, r''). (JObject kvs, r'')) (parse_members n r))
          else if c = CHR ''['' then
            (case skip_ws r of
               [] \<Rightarrow> None
             | d # r' \<Rightarrow> if d = CHR '']'' then Some (JArray [], r')
                         else map_option (\<lambda>(vs, r''). (JArray vs, r'')) (parse_elems n r))
          else if c = CHR 0x22 then map_option (\<lambda>(x, r'). (JString x, r')) (parse_str r)
          else if c = CHR ''t'' \<and> take 3 r = ''rue'' then Some (JBool True, drop 3 r)
          else if c = CHR ''f'' \<and> take 4 r = ''alse'' then Some (JBool False, drop 4 r)
          else if c = CHR ''n'' \<and> take 3 r = ''ull'' then Some (JNull, drop 3 r)
          else map_option (\<lambda>(i, r'). (JNumber i, r')) (parse_int (c # r)))"
| "parse_elems 0 s = None"
| "parse_elems (Suc n) s =
     (case parse_value n s of
        None \<Rightarrow> None
      | Some (v, r) \<Rightarrow>
          (case skip_ws r of
             [] \<Rightarrow> None
           | c # r' \<Rightarrow>
               if c = CHR '','' then map_option (\<lambda>(vs, r''). (v # vs, r'')) (parse_elems n r')
               else if c = CHR '']'' then Some ([v], r') else None))"
| "parse_members 0 s = None"
| "parse_members (Suc n) s =
     (case skip_ws s of
        [] \<Rightarrow> None
      | c # r \<Rightarrow>
          if c \<noteq> CHR 0x22 then None
          else case parse_str r of
            None \<Rightarrow> None
          | Some (k, r1) \<Rightarrow>
              (case skip_ws r1 of
                 [] \<Rightarrow> None
               | d # r2 \<Rightarrow>
                   if d \<noteq> CHR '':'' then None
                   else case parse_value n r2 of
                     None \<Rightarrow> None
                   | Some (v, r3) \<Rightarrow>
                       (case skip_ws r3 of
                          [] \<Rightarrow> None
                        | e # r4 \<Rightarrow>
                            if e = CHR '','' then map_option (\<lambda>(kvs, r5). ((k, v) # kvs, r5)) (parse_members n r4)
                            else if e = CHR ''}'' then Some ([(k, v)], r4) else None)))"

text \<open>A whole document: one value and nothing but white space after it.\<close>

definition json_parse :: "string \<Rightarrow> jsval option" where
  "json_parse s =
     (case parse_value (Suc (length s)) s of
        None \<Rightarrow> None
      | Some (v, r) \<Rightarrow> if skip_ws r = [] then Some v else None)"

text \<open>What \<open>JSON.stringify\<close> keeps of a value: \<open>undefined\<close> properties are dropped and
  \<open>undefined\<close> array elements become \<open>null\<close>.\<close>

fun json_norm :: "jsval \<Rightarrow> jsval" where
  "json_norm (JArray vs) = JArray (map (\<lambda>v. if v = JUndefined then JNull else json_norm v) vs)"
| "json_norm (JObject kvs) =
     JObject (map (\<lambda>kv. (fst kv, json_norm (snd kv))) (filter (\<lambda>kv. snd kv \<noteq> JUndefined) kvs))"
| "json_norm v = v"

text \<open>Where a value's text may end inside a document: at its end, or before the separator or
  closing bracket that follows it.\<close>

definition value_end :: "string \<Rightarrow> bool" where
  "value_end r \<longleftrightarrow> r = [] \<or> hd r = CHR '','' \<or> hd r = CHR '']'' \<or> hd r = CHR ''}''"

text \<open>The text of an array element and of an object member in the serialization, and the
  value the element is read back as.\<close>

definition json_elem_text :: "jsval \<Rightarrow> string" where
  "json_elem_text v = (case json_stringify v of None \<Rightarrow> ''null'' | Some t \<Rightarrow> t)"

definition json_elem_norm :: "jsval \<Rightarrow> jsval" where
  "json_elem_norm v = (if v = JUndefined then JNull else json_norm v)"

definition json_member_text :: "string \<times> jsval \<Rightarrow> string" where
  "json_member_text kv = json_quote (fst kv) @ '':'' @ the (json_stringify (snd kv))"

subsection \<open>Strings roundtrip\<close>

lemma hex_val_hex_digit: "d < 16 \<Longrightarrow> hex_val (hex_digit d) = Some d"
  by (auto simp: hex_val_def hex_digit_def numeral_eq_Suc less_Suc_eq)

lemma parse_str_plain:
  "c \<noteq> CHR 0x22 \<Longrightarrow> c \<noteq> CHR 0x5C \<Longrightarrow> 32 \<le> (of_char c :: nat) \<Longrightarrow>
   parse_str (c # cs) = map_option (\<lambda>(s, r). (c # s, r)) (parse_str cs)"
  by simp

lemma parse_str_escaped:
  "parse_str (json_escape_char c @ cs) = map_option (\<lambda>(s, r). (c # s, r)) (parse_str cs)"
proof -
  have n: "(of_char c :: nat) < 32 \<Longrightarrow> hex4_val CHR ''0'' CHR ''0'' (hex_digit (of_char c div 16))
             (hex_digit (of_char c mod 16)) = Some (of_char c)"
    by (simp add: hex4_val_def hex_val_hex_digit) (simp add: hex_val_def)
  show ?thesis
    by (cases "(of_char c :: nat) < 32")
       (auto simp: json_escape_char_def n utf8_encode_def)
qed

lemma parse_str_quote:
  "parse_str (concat (map json_escape_char s) @ CHR 0x22 # rest) = Some (s, rest)"
  by (induction s) (simp_all add: parse_str_escaped)

subsection \<open>Numbers roundtrip\<close>

lemma of_char_digit_char: "d < 10 \<Longrightarrow> (of_char (digit_char d) :: nat) = 48 + d"
  by (auto simp: digit_char_def numeral_eq_Suc less_Suc_eq)

lemma is_digit_digit_char: "d < 10 \<Longrightarrow> is_digit (digit_char d)"
  by (simp add: is_digit_def of_char_digit_char)

lemma nat_to_dec_digits: "c \<in> set (nat_to_dec n) \<Longrightarrow> is_digit c"
proof (induction n rule: nat_to_dec.induct)
  case (1 n)
  then show ?case by (cases "n < 10") (auto simp: is_digit_digit_char)
qed

lemma nat_to_dec_not_Nil [simp]: "nat_to_dec n \<noteq> []"
  by (cases "n < 10") simp_all

lemma nat_to_dec_hd: "0 < n \<Longrightarrow> hd (nat_to_dec n) \<noteq> CHR ''0''"
proof (induction n rule: nat_to_dec.induct)
  case (1 n)
  show ?case
  proof (cases "n < 10")
    case True
    then have "(of_char (digit_char n) :: nat) \<noteq> of_char CHR ''0''" using 1 by (simp add: of_char_digit_char)
    with True show ?thesis by auto
  next
    case False
    then show ?thesis using 1 by simp
  qed
qed

lemma nat_to_dec_leading: "1 < length (nat_to_dec n) \<Longrightarrow> hd (nat_to_dec n) \<noteq> CHR ''0''"
  by (cases "n < 10") (simp_all add: nat_to_dec_hd)

lemma dec_value_snoc: "dec_value (ds @ [c]) = 10 * dec_value ds + (of_char c - 48)"
  by (simp add: dec_value_def)

lemma dec_value_nat_to_dec [simp]: "dec_value (nat_to_dec n) = n"
proof (induction n rule: nat_to_dec.induct)
  case (1 n)
  then show ?case
    by (cases "n < 10") (simp_all add: dec_value_snoc of_char_digit_char dec_value_def)
qed

lemma value_end_not_digit: "value_end rest \<Longrightarrow> takeWhile is_digit rest = [] \<and> dropWhile is_digit rest = rest"
  by (cases rest) (auto simp: value_end_def is_digit_def)

lemma digits_then_end:
  assumes "\<forall>c \<in> set ds. is_digit c" "value_end rest"
  shows "takeWhile is_digit (ds @ rest) = ds" "dropWhile is_digit (ds @ rest) = rest"
  using assms value_end_not_digit [of rest] by simp_all

lemma parse_int_dec:
  assumes "value_end rest"
  shows "parse_int (int_to_dec i @ rest) = Some (i, rest)"
proof -
  let ?ds = "nat_to_dec (nat \<bar>i\<bar>)"
  have digits: "\<forall>c \<in> set ?ds. is_digit c" by (auto dest: nat_to_dec_digits)
  have hd_digit: "hd (?ds @ rest) \<noteq> CHR ''-''"
    using nat_to_dec_digits [of "hd ?ds" "nat \<bar>i\<bar>"] by (auto simp: is_digit_def)
  have end_ok: "\<not> (dropWhile is_digit (?ds @ rest) \<noteq> [] \<and> (hd (dropWhile is_digit (?ds @ rest)) = CHR ''.''
      \<or> hd (dropWhile is_digit (?ds @ rest)) = CHR ''e'' \<or> hd (dropWhile is_digit (?ds @ rest)) = CHR ''E''))"
    using assms digits_then_end(2) [OF digits assms] by (auto simp: value_end_def)
  have not_frac: "rest = [] \<or> hd rest \<noteq> CHR ''.'' \<and> hd rest \<noteq> CHR ''e'' \<and> hd rest \<noteq> CHR ''E''"
    using assms by (auto simp: value_end_def)
  have lead: "\<not> (hd ?ds = CHR ''0'' \<and> 1 < length ?ds)" using nat_to_dec_leading by blast
  show ?thesis
  proof (cases "i < 0")
    case True
    then have "int_to_dec i = CHR ''-'' # ?ds" by (simp add: int_to_dec_def)
    with True show ?thesis using not_frac lead digits_then_end [OF digits assms]
      by (simp add: parse_int_def Let_def)
  next
    case False
    then have "int_to_dec i = ?ds" by (simp add: int_to_dec_def)
    with False show ?thesis using not_frac lead hd_digit digits_then_end [OF digits assms]
      by (simp add: parse_int_def Let_def)
  qed
qed

subsection \<open>Values roundtrip\<close>

lemma skip_ws_Cons [simp]: "\<not> is_ws c \<Longrightarrow> skip_ws (c # s) = c # s"
  by (simp add: skip_ws_def)

lemma int_to_dec_Cons: "\<exists>c r. int_to_dec i = c # r \<and> (c = CHR ''-'' \<or> is_digit c)"
proof -
  obtain c r where "nat_to_dec (nat \<bar>i\<bar>) = c # r" by (cases "nat_to_dec (nat \<bar>i\<bar>)") auto
  moreover have "is_digit c" using nat_to_dec_digits [of c "nat \<bar>i\<bar>"] calculation by simp
  ultimately show ?thesis by (auto simp: int_to_dec_def)
qed

lemma json_stringify_Cons:
  "json_stringify v = Some t \<Longrightarrow>
     \<exists>c r. t = c # r \<and> \<not> is_ws c \<and> c \<noteq> CHR '']'' \<and> c \<noteq> CHR ''}''"
proof (cases v)
  case (JNumber i)
  then show "json_stringify v = Some t \<Longrightarrow> ?thesis"
    using int_to_dec_Cons [of i] by (auto simp: is_ws_def is_digit_def)
qed (auto simp: is_ws_def json_quote_def)

lemma json_stringify_None_iff: "json_stringify v = None \<longleftrightarrow> v = JUndefined"
  by (cases v) simp_all

lemma parse_value_null: "parse_value (Suc m) (''null'' @ rest) = Some (JNull, rest)"
  by (simp add: is_ws_def)

lemma parse_value_number:
  assumes "value_end rest"
  shows "parse_value (Suc m) (int_to_dec i @ rest) = Some (JNumber i, rest)"
proof -
  obtain c r where cr: "int_to_dec i = c # r" "c = CHR ''-'' \<or> is_digit c"
    using int_to_dec_Cons by blast
  then have c: "\<not> is_ws c" "c \<noteq> CHR ''{''" "c \<noteq> CHR ''[''" "c \<noteq> CHR 0x22" "c \<noteq> CHR ''t''"
      "c \<noteq> CHR ''f''" "c \<noteq> CHR ''n''"
    by (auto simp: is_digit_def is_ws_def)
  have "parse_int (c # r @ rest) = Some (i, rest)" using parse_int_dec [OF assms, of i] cr(1) by simp
  with cr(1) c show ?thesis by simp
qed

lemma parse_elems_join:
  assumes "\<And>v m rest. v \<in> set vs \<Longrightarrow> length (f v) \<le> m \<Longrightarrow> value_end rest \<Longrightarrow>
             parse_value m (f v @ rest) = Some (g v, rest)"
    and "vs \<noteq> []" and "Suc (length (join_with '','' (map f vs))) \<le> n"
  shows "parse_elems n (join_with '','' (map f vs) @ CHR '']'' # rest) = Some (map g vs, rest)"
  using assms
proof (induction vs arbitrary: n)
  case Nil
  then show ?case by simp
next
  case (Cons v vs)
  obtain m where n: "n = Suc m" using Cons.prems(3) by (cases n) auto
  show ?case
  proof (cases vs)
    case Nil
    have "parse_value m (f v @ CHR '']'' # rest) = Some (g v, CHR '']'' # rest)"
      using Cons.prems(1) [of v m "CHR '']'' # rest"] Cons.prems(3) Nil n by (simp add: value_end_def)
    then show ?thesis using Nil n by (simp add: is_ws_def)
  next
    case (Cons w ws)
    let ?tail = "join_with '','' (map f vs) @ CHR '']'' # rest"
    have "parse_value m (f v @ CHR '','' # ?tail) = Some (g v, CHR '','' # ?tail)"
      using Cons.prems(1) [of v m "CHR '','' # ?tail"] Cons.prems(3) Cons n by (simp add: value_end_def)
    moreover have "parse_elems m ?tail = Some (map g vs, rest)"
      using Cons.IH Cons.prems Cons n by simp
    ultimately show ?thesis using Cons n by (simp add: is_ws_def)
  qed
qed

lemma json_quote_append: "json_quote k @ xs = CHR 0x22 # concat (map json_escape_char k) @ CHR 0x22 # xs"
  by (simp add: json_quote_def)

lemma parse_members_join:
  assumes "\<And>k v m rest. (k, v) \<in> set kvs \<Longrightarrow> length (f v) \<le> m \<Longrightarrow> value_end rest \<Longrightarrow>
             parse_value m (f v @ rest) = Some (g v, rest)"
    and "kvs \<noteq> []"
    and "Suc (length (join_with '','' (map (\<lambda>kv. json_quote (fst kv) @ '':'' @ f (snd kv)) kvs))) \<le> n"
  shows "parse_members n (join_with '','' (map (\<lambda>kv. json_quote (fst kv) @ '':'' @ f (snd kv)) kvs) @ CHR ''}'' # rest)
           = Some (map (\<lambda>kv. (fst kv, g (snd kv))) kvs, rest)"
  using assms
proof (induction kvs arbitrary: n)
  case Nil
  then show ?case by simp
next
  case (Cons kv kvs)
  obtain k v where kv: "kv = (k, v)" by (cases kv)
  obtain m where n: "n = Suc m" using Cons.prems(3) by (cases n) auto
  show ?case
  proof (cases kvs)
    case Nil
    have "parse_value m (f v @ CHR ''}'' # rest) = Some (g v, CHR ''}'' # rest)"
      using Cons.prems(1) [of k v m "CHR ''}'' # rest"] Cons.prems(3) Nil n kv by (simp add: value_end_def)
    then show ?thesis using Nil n kv by (simp add: is_ws_def json_quote_append parse_str_quote)
  next
    case (Cons w ws)
    let ?tail = "join_with '','' (map (\<lambda>kv. json_quote (fst kv) @ '':'' @ f (snd kv)) kvs) @ CHR ''}'' # rest"
    have "parse_value m (f v @ CHR '','' # ?tail) = Some (g v, CHR '','' # ?tail)"
      using Cons.prems(1) [of k v m "CHR '','' # ?tail"] Cons.prems(3) Cons n kv by (simp add: value_end_def)
    moreover have "parse_members m ?tail = Some (map (\<lambda>kv. (fst kv, g (snd kv))) kvs, rest)"
    proof (rule Cons.IH)
      show "\<And>k v m rest. (k, v) \<in> set kvs \<Longrightarrow> length (f v) \<le> m \<Longrightarrow> value_end rest \<Longrightarrow>
              parse_value m (f v @ rest) = Some (g v, rest)"
        using Cons.prems(1) by (metis list.set_intros(2))
    qed (use Cons.prems(3) Cons n in simp_all)
    ultimately show ?thesis using Cons n kv by (simp add: is_ws_def json_quote_append parse_str_quote)
  qed
qed

lemma json_object_members:
  "concat (map (\<lambda>kv. case json_stringify (snd kv) of None \<Rightarrow> [] | Some t \<Rightarrow> [json_quote (fst kv) @ '':'' @ t]) kvs)
     = map (\<lambda>kv. json_quote (fst kv) @ '':'' @ the (json_stringify (snd kv))) (filter (\<lambda>kv. snd kv \<noteq> JUndefined) kvs)"
  by (induction kvs) (auto split: option.split simp: json_stringify_None_iff)

lemma json_elem_text_Cons: "\<exists>c r. json_elem_text v = c # r \<and> \<not> is_ws c \<and> c \<noteq> CHR '']''"
  using json_stringify_Cons [of v] by (cases "json_stringify v") (auto simp: is_ws_def json_elem_text_def)

lemma parse_value_array:
  assumes elems: "\<And>v k r. v \<in> set vs \<Longrightarrow> length (json_elem_text v) \<le> k \<Longrightarrow> value_end r \<Longrightarrow>
                    parse_value k (json_elem_text v @ r) = Some (json_elem_norm v, r)"
    and len: "Suc (Suc (length (join_with '','' (map json_elem_text vs)))) \<le> n"
  shows "parse_value n (CHR ''['' # join_with '','' (map json_elem_text vs) @ CHR '']'' # rest)
           = Some (JArray (map json_elem_norm vs), rest)"
proof -
  obtain m where n: "n = Suc m" using len by (cases n) auto
  show ?thesis
  proof (cases vs)
    case Nil
    then show ?thesis using n by (simp add: is_ws_def)
  next
    case (Cons v vs')
    obtain c r where cr: "json_elem_text v = c # r" "\<not> is_ws c" "c \<noteq> CHR '']''"
      using json_elem_text_Cons by blast
    obtain ys where "join_with '','' (map json_elem_text vs) = json_elem_text v @ ys"
      using join_with_Cons [of "'',''" "json_elem_text v" "map json_elem_text vs'"] Cons by auto
    then have hd: "skip_ws (join_with '','' (map json_elem_text vs) @ CHR '']'' # rest) = c # r @ ys @ CHR '']'' # rest"
      using cr by simp
    have "parse_elems m (join_with '','' (map json_elem_text vs) @ CHR '']'' # rest) = Some (map json_elem_norm vs, rest)"
      by (rule parse_elems_join) (use elems Cons len n in auto)
    then show ?thesis using n hd cr(3) by (simp add: is_ws_def)
  qed
qed

lemma parse_value_object:
  assumes members: "\<And>k v m r. (k, v) \<in> set kvs \<Longrightarrow> length (the (json_stringify v)) \<le> m \<Longrightarrow> value_end r \<Longrightarrow>
                      parse_value m (the (json_stringify v) @ r) = Some (json_norm v, r)"
    and len: "Suc (Suc (length (join_with '','' (map json_member_text kvs)))) \<le> n"
  shows "parse_value n (CHR ''{'' # join_with '','' (map json_member_text kvs) @ CHR ''}'' # rest)
           = Some (JObject (map (\<lambda>kv. (fst kv, json_norm (snd kv))) kvs), rest)"
proof -
  obtain m where n: "n = Suc m" using len by (cases n) auto
  show ?thesis
  proof (cases kvs)
    case Nil
    then show ?thesis using n by (simp add: is_ws_def)
  next
    case (Cons kv kvs')
    obtain ys where "join_with '','' (map json_member_text kvs) = json_member_text kv @ ys"
      using join_with_Cons [of "'',''" "json_member_text kv" "map json_member_text kvs'"] Cons by auto
    then have hd: "skip_ws (join_with '','' (map json_member_text kvs) @ CHR ''}'' # rest)
                     = CHR 0x22 # concat (map json_escape_char (fst kv)) @ CHR 0x22 # CHR '':''
                       # the (json_stringify (snd kv)) @ ys @ CHR ''}'' # rest"
      by (simp add: json_member_text_def json_quote_append is_ws_def)
    have "parse_members m (join_with '','' (map json_member_text kvs) @ CHR ''}'' # rest)
            = Some (map (\<lambda>kv. (fst kv, json_norm (snd kv))) kvs, rest)"
      using parse_members_join [of kvs "\<lambda>v. the (json_stringify v)" json_norm m rest] members Cons len n
      by (simp add: json_member_text_def [abs_def])
    then show ?thesis using n hd by (simp add: is_ws_def)
  qed
qed

lemma json_stringify_JArray_text:
  "json_stringify (JArray vs) = Some (CHR ''['' # join_with '','' (map json_elem_text vs) @ [CHR '']''])"
  by (simp add: json_elem_text_def [abs_def])

lemma json_stringify_JObject_text:
  "json_stringify (JObject kvs) =
     Some (CHR ''{'' # join_with '','' (map json_member_text (filter (\<lambda>kv. snd kv \<noteq> JUndefined) kvs)) @ [CHR ''}''])"
  by (simp add: json_object_members json_member_text_def [abs_def])

lemma json_norm_JArray: "json_norm (JArray vs) = JArray (map json_elem_norm vs)"
  by (simp add: json_elem_norm_def [abs_def])

lemma json_stringify_length_Suc: "json_stringify v = Some t \<Longrightarrow> length t \<le> n \<Longrightarrow> \<exists>m. n = Suc m"
  using json_stringify_Cons [of v t] by (cases n) auto

lemma parse_value_stringify:
  "json_stringify v = Some t \<Longrightarrow> length t \<le> n \<Longrightarrow> value_end rest \<Longrightarrow>
     parse_value n (t @ rest) = Some (json_norm v, rest)"
proof (induction v arbitrary: t n rest)
  case (JBool b)
  then obtain m where "n = Suc m" using json_stringify_length_Suc by blast
  with JBool show ?case by (cases b) (auto simp: is_ws_def)
next
  case (JNumber i)
  then obtain m where "n = Suc m" using json_stringify_length_Suc by blast
  with JNumber show ?case using parse_value_number [of rest m i] by (simp del: parse_value.simps)
next
  case (JString s)
  then obtain m where "n = Suc m" using json_stringify_length_Suc by blast
  with JString show ?case by (auto simp: json_quote_append parse_str_quote is_ws_def)
next
  case (JArray vs)
  have elem: "parse_value k (json_elem_text v @ r) = Some (json_elem_norm v, r)"
    if "v \<in> set vs" "length (json_elem_text v) \<le> k" "value_end r" for v k r
  proof (cases "v = JUndefined")
    case True
    with that obtain k' where "k = Suc k'" by (cases k) (auto simp: json_elem_text_def)
    with True show ?thesis using parse_value_null by (simp add: json_elem_text_def json_elem_norm_def)
  next
    case False
    then obtain tv where "json_stringify v = Some tv" using json_stringify_None_iff by (cases "json_stringify v") auto
    with False that show ?thesis using JArray.IH by (simp add: json_elem_text_def json_elem_norm_def)
  qed
  have t: "t = CHR ''['' # join_with '','' (map json_elem_text vs) @ [CHR '']'']"
    using JArray.prems(1) unfolding json_stringify_JArray_text by simp
  have "parse_value n (CHR ''['' # join_with '','' (map json_elem_text vs) @ CHR '']'' # rest)
          = Some (JArray (map json_elem_norm vs), rest)"
    using JArray.prems(2) t by (intro parse_value_array elem) simp_all
  then show ?case using t by (simp del: json_norm.simps add: json_norm_JArray)
next
  case (JObject kvs)
  let ?ms = "filter (\<lambda>kv. snd kv \<noteq> JUndefined) kvs"
  have member: "parse_value m (the (json_stringify v) @ r) = Some (json_norm v, r)"
    if "(k, v) \<in> set ?ms" "length (the (json_stringify v)) \<le> m" "value_end r" for k v m r
  proof -
    have "v \<noteq> JUndefined" using that(1) by simp
    then obtain tv where "json_stringify v = Some tv"
      using json_stringify_None_iff by (cases "json_stringify v") auto
    then show ?thesis using that JObject.IH [of "(k, v)" v] by simp
  qed
  have t: "t = CHR ''{'' # join_with '','' (map json_member_text ?ms) @ [CHR ''}'']"
    using JObject.prems(1) unfolding json_stringify_JObject_text by simp
  have "parse_value n (CHR ''{'' # join_with '','' (map json_member_text ?ms) @ CHR ''}'' # rest)
          = Some (JObject (map (\<lambda>kv. (fst kv, json_norm (snd kv))) ?ms), rest)"
  proof (rule parse_value_object)
    fix k v m r
    assume "(k, v) \<in> set ?ms" "length (the (json_stringify v)) \<le> m" "value_end r"
    then show "parse_value m (the (json_stringify v) @ r) = Some (json_norm v, r)" by (rule member)
  qed (use JObject.prems(2) t in simp)
  then show ?case using t by simp
next
  case JNull
  then obtain m where "n = Suc m" using json_stringify_length_Suc by blast
  moreover have "t = ''null''" using JNull.prems(1) by simp
  ultimately show ?case using parse_value_null [of m rest] by (simp del: parse_value.simps)
qed simp

text \<open>A serialization, read as a whole document with the fuel \<open>json_parse\<close> gives it.\<close>

lemma parse_value_document:
  "json_stringify v = Some t \<Longrightarrow> parse_value (Suc (length t)) t = Some (json_norm v, [])"
  using parse_value_stringify [of v t "Suc (length t)" "[]"] by (simp add: value_end_def)

end
