(* ===== verification/Webhook.thy ===== *)
theory Webhook
  imports Payload JsonParse
begin

text \<open>
  The outbound interface of the spec (section 6): the webhook accepts a JSON document
  \<open>{content: string, embeds: [{title, color, fields: [{name, value, inline}]}]}\<close>.
  \<open>webhook_shape\<close> checks a decoded document against it, with the types the spec's
  rendering implies (text for the content, the title, the field names and values, a number
  for the colour, a boolean for \<open>inline\<close>). The lemmas say which payloads the handler
  builds have that shape once serialized and decoded: those whose timestamp is a string,
  since the code puts the request's \<open>timestamp\<close> into the field as it is.
\<close>

definition str_field :: "(string \<times> jsval) list \<Rightarrow> string \<Rightarrow> bool" where
  "str_field kvs k \<longleftrightarrow> (case map_of kvs k of Some (JString _) \<Rightarrow> True | _ \<Rightarrow> False)"

definition bool_field :: "(string \<times> jsval) list \<Rightarrow> string \<Rightarrow> bool" where
  "bool_field kvs k \<longleftrightarrow> (case map_of kvs k of Some (JBool _) \<Rightarrow> True | _ \<Rightarrow> False)"

definition num_field :: "(string \<times> jsval) list \<Rightarrow> string \<Rightarrow> bool" where
  "num_field kvs k \<longleftrightarrow> (case map_of kvs k of Some (JNumber _) \<Rightarrow> True | _ \<Rightarrow> False)"

fun field_shape :: "jsval \<Rightarrow> bool" where
  "field_shape (JObject kvs) \<longleftrightarrow> str_field kvs ''name'' \<and> str_field kvs ''value'' \<and> bool_field kvs ''inline''"
| "field_shape _ \<longleftrightarrow> False"

fun embed_shape :: "jsval \<Rightarrow> bool" where
  "embed_shape (JObject kvs) \<longleftrightarrow> str_field kvs ''title'' \<and> num_field kvs ''color'' \<and>
     (case map_of kvs ''fields'' of Some (JArray fs) \<Rightarrow> list_all field_shape fs | _ \<Rightarrow> False)"
| "embed_shape _ \<longleftrightarrow> False"

fun webhook_shape :: "jsval \<Rightarrow> bool" where
  "webhook_shape (JObject kvs) \<longleftrightarrow> str_field kvs ''content'' \<and>
     (case map_of kvs ''embeds'' of Some (JArray es) \<Rightarrow> list_all embed_shape es | _ \<Rightarrow> False)"
| "webhook_shape _ \<longleftrightarrow> False"

lemma payload_object_shape:
  "webhook_shape (json_norm (payload_object u p ua ts)) \<longleftrightarrow> (\<exists>s. ts = JString s)"
  by (cases ts) (simp_all add: payload_object_def embed_field_def str_field_def bool_field_def num_field_def)

text \<open>
  C23. A payload the handler builds, as the webhook reads it, has the shape of the spec's
  outbound interface exactly when the request's timestamp is a string: an absent timestamp
  leaves the field without a value, and a number, boolean, \<open>null\<close>, array or object is
  sent as that JSON type instead of text.
\<close>

theorem discord_payload_shape:
  assumes "discord_payload username password userAgent timestamp = Inr pl"
  shows "webhook_shape (json_norm pl) \<longleftrightarrow> (\<exists>s. timestamp = JString s)"
  using assms payload_object_shape by (auto simp: discord_payload_def split: sum.splits)

end
