(* ===== verification/Sink.thy ===== *)
theory Sink
  imports Webhook Handler
begin

text \<open>
  The Discord webhook the handler posts to, as an oracle for \<open>fetch\<close> built from the rules
  of Discord's Execute Webhook endpoint: the body must decode as JSON; \<open>content\<close> is at
  most 2000 characters; there are at most 10 embeds with a title of at most 256
  characters, a colour in \<open>0..0xFFFFFF\<close> and at most 25 fields, each with a name of at most
  256 and a value of at most 1024 characters, neither empty nor made of white space only; the titles, names and
  values of all embeds together are at most 6000 characters; and the message is not empty.
  An accepted message is answered 204 with an empty body; a rejected one 400
  (\<open>Invalid Form Body\<close>; Discord's JSON error object is abbreviated to that text). A
  character is a Unicode code point, counted on the UTF-8 bytes (\<open>utf8_len\<close>: the bytes
  that do not continue a sequence). The service is outside the repository: this theory is
  the collaborator the spec names (section 6), used to state what the handler's requests
  come to. The lemmas compute which payloads Discord accepts and, composed with the
  handler, what the caller is answered.
\<close>

definition utf8_len :: "string \<Rightarrow> nat" where
  "utf8_len s = length (filter (\<lambda>c. \<not> (128 \<le> (of_char c :: nat) \<and> (of_char c :: nat) < 192)) s)"

definition text_len :: "jsval option \<Rightarrow> nat" where
  "text_len v = (case v of Some (JString s) \<Rightarrow> utf8_len s | _ \<Rightarrow> 0)"

definition opt_text_ok :: "nat \<Rightarrow> jsval option \<Rightarrow> bool" where
  "opt_text_ok hi v = (case v of None \<Rightarrow> True | Some (JString s) \<Rightarrow> utf8_len s \<le> hi | _ \<Rightarrow> False)"

text \<open>Discord strips white space from a required text before it checks that it is not empty:
  a value of blanks only is refused like an empty one.\<close>

definition sink_blank :: "char \<Rightarrow> bool" where
  "sink_blank c \<longleftrightarrow> c \<in> set [CHR '' '', CHR 0x09, CHR 0x0A, CHR 0x0B, CHR 0x0C, CHR 0x0D]"

definition req_text_ok :: "nat \<Rightarrow> jsval option \<Rightarrow> bool" where
  "req_text_ok hi v = (case v of Some (JString s) \<Rightarrow> \<not> list_all sink_blank s \<and> utf8_len s \<le> hi | _ \<Rightarrow> False)"

text \<open>The rules for one field, one embed and the whole message.\<close>

fun sink_field_ok :: "jsval \<Rightarrow> bool" where
  "sink_field_ok (JObject kvs) \<longleftrightarrow>
     req_text_ok 256 (map_of kvs ''name'') \<and> req_text_ok 1024 (map_of kvs ''value'') \<and>
     (case map_of kvs ''inline'' of None \<Rightarrow> True | Some (JBool _) \<Rightarrow> True | _ \<Rightarrow> False)"
| "sink_field_ok _ \<longleftrightarrow> False"

fun field_chars :: "jsval \<Rightarrow> nat" where
  "field_chars (JObject kvs) = text_len (map_of kvs ''name'') + text_len (map_of kvs ''value'')"
| "field_chars _ = 0"

fun sink_embed_ok :: "jsval \<Rightarrow> bool" where
  "sink_embed_ok (JObject kvs) \<longleftrightarrow>
     opt_text_ok 256 (map_of kvs ''title'') \<and>
     (case map_of kvs ''color'' of None \<Rightarrow> True | Some (JNumber c) \<Rightarrow> 0 \<le> c \<and> c \<le> 16777215 | _ \<Rightarrow> False) \<and>
     (case map_of kvs ''fields'' of
        None \<Rightarrow> True
      | Some (JArray fs) \<Rightarrow> length fs \<le> 25 \<and> list_all sink_field_ok fs
      | _ \<Rightarrow> False)"
| "sink_embed_ok _ \<longleftrightarrow> False"

fun embed_chars :: "jsval \<Rightarrow> nat" where
  "embed_chars (JObject kvs) =
     text_len (map_of kvs ''title'') +
     (case map_of kvs ''fields'' of Some (JArray fs) \<Rightarrow> sum_list (map field_chars fs) | _ \<Rightarrow> 0)"
| "embed_chars _ = 0"

fun discord_accepts :: "jsval \<Rightarrow> bool" where
  "discord_accepts (JObject kvs) \<longleftrightarrow>
     opt_text_ok 2000 (map_of kvs ''content'') \<and>
     (case map_of kvs ''embeds'' of
        None \<Rightarrow> 0 < text_len (map_of kvs ''content'')
      | Some (JArray es) \<Rightarrow>
          length es \<le> 10 \<and> list_all sink_embed_ok es \<and> sum_list (map embed_chars es) \<le> 6000 \<and>
          (0 < text_len (map_of kvs ''content'') \<or> es \<noteq> [])
      | _ \<Rightarrow> False)"
| "discord_accepts _ \<longleftrightarrow> False"

text \<open>The webhook as a \<open>fetch\<close> oracle: the outcome depends on the posted body only.\<close>

definition discord_sink :: fetch_oracle where
  "discord_sink url init =
     Inr (case map_option json_parse (out_body init) of
            Some (Some v) \<Rightarrow>
              if discord_accepts v then \<lparr>resp_status = 204, resp_text = Inr []\<rparr>
              else \<lparr>resp_status = 400, resp_text = Inr ''Invalid Form Body''\<rparr>
          | _ \<Rightarrow> \<lparr>resp_status = 400, resp_text = Inr ''Invalid JSON''\<rparr>)"

subsection \<open>Which payloads Discord accepts\<close>

lemma utf8_len_append [simp]: "utf8_len (xs @ ys) = utf8_len xs + utf8_len ys"
  by (simp add: utf8_len_def)

lemma utf8_len_code_block [simp]: "utf8_len (code_block s) = utf8_len s + 6"
  by (simp add: code_block_def utf8_len_def)

lemma code_block_not_blank [simp]: "\<not> list_all sink_blank (code_block s)"
  by (simp add: code_block_def sink_blank_def)

text \<open>The payload of the handler is accepted exactly when the timestamp is a string of at most
  1024 characters with a character other than white space, each interpolated value leaves room for its code block (at
  most 1018 characters), and the four values together leave room for the fixed title and
  field names (71 characters) and the three code blocks (18).\<close>

lemma payload_object_accepted:
  "discord_accepts (json_norm (payload_object u p ua ts)) \<longleftrightarrow>
     (\<exists>t. ts = JString t \<and> \<not> list_all sink_blank t \<and> utf8_len t \<le> 1024 \<and>
        utf8_len u \<le> 1018 \<and> utf8_len p \<le> 1018 \<and> utf8_len ua \<le> 1018 \<and>
        utf8_len u + utf8_len p + utf8_len ua + utf8_len t \<le> 5911)"
  by (cases ts) (auto simp: payload_object_def embed_field_def emoji_user_def emoji_key_def emoji_clock_def
      emoji_globe_def emoji_siren_def payload_content_def payload_color_def text_len_def opt_text_ok_def
      req_text_ok_def sink_blank_def utf8_len_def[of "[]"] utf8_len_def [of "_ # _"])

lemma payload_object_ne_undefined [simp]: "payload_object u p ua ts \<noteq> JUndefined"
  by (simp add: payload_object_def)

lemma discord_sink_payload:
  assumes "pl \<noteq> JUndefined"
  shows "discord_sink url (discord_request pl) =
           Inr (if discord_accepts (json_norm pl) then \<lparr>resp_status = 204, resp_text = Inr []\<rparr>
                else \<lparr>resp_status = 400, resp_text = Inr ''Invalid Form Body''\<rparr>)"
proof -
  obtain t where t: "json_stringify pl = Some t"
    using assms json_stringify_None_iff by (cases "json_stringify pl") auto
  have "json_parse t = Some (json_norm pl)"
    using parse_value_document [OF t] by (simp add: json_parse_def skip_ws_def)
  with t show ?thesis by (simp add: discord_sink_def discord_request_def)
qed

lemma submission_payload_built:
  "submission_payload b = Inr pl \<Longrightarrow>
     \<exists>u p ua. pl = payload_object u p ua (js_get b ''timestamp'')"
  by (auto simp: discord_payload_def split: sum.splits)

subsection \<open>The handler against the webhook\<close>

text \<open>
  C25. Against Discord, a valid request configured with a URL is forwarded once and
  answered 200 when Discord accepts the payload as it decodes it, and otherwise logged
  with Discord's 400 and answered 500 "Failed to log data.".
\<close>

theorem handler_discord_delivery:
  assumes "req_method req = ''POST''" "req_body req = Inr b" "b \<noteq> JUndefined" "b \<noteq> JNull"
    and "js_truthy (js_get b ''username'')" "js_truthy (js_get b ''password'')"
    and "submission_payload b = Inr pl" "w = Some url" "url \<noteq> []"
  shows "handler w discord_sink req =
           (if discord_accepts (json_norm pl)
            then [Fetch url (discord_request pl), resp_success]
            else [Fetch url (discord_request pl), log_forward_failed 400 ''Invalid Form Body'', resp_forward_failed])"
proof -
  have "pl \<noteq> JUndefined" using submission_payload_built [OF assms(7)] by auto
  then show ?thesis
    using assms discord_sink_payload [of pl url]
    by (simp add: handler_eq handler_try_eq fields_ok_def env_value_def resp_ok_def)
qed

text \<open>
  C26. A request without a timestamp is never delivered: the timestamp field has no value,
  Discord rejects the message, and the caller gets 500 "Failed to log data.". The spec says
  an absent timestamp is tolerated and rendered as empty text.
\<close>

theorem handler_discord_missing_timestamp:
  assumes "req_method req = ''POST''" "req_body req = Inr b" "b \<noteq> JUndefined" "b \<noteq> JNull"
    and "js_truthy (js_get b ''username'')" "js_truthy (js_get b ''password'')"
    and "js_get b ''timestamp'' = JUndefined" "submission_payload b = Inr pl" "w = Some url" "url \<noteq> []"
  shows "handler w discord_sink req =
           [Fetch url (discord_request pl), log_forward_failed 400 ''Invalid Form Body'', resp_forward_failed]"
proof -
  obtain u p ua where pl: "pl = payload_object u p ua JUndefined"
    using submission_payload_built [OF assms(8)] assms(7) by auto
  then have "\<not> discord_accepts (json_norm pl)" by (simp add: payload_object_accepted)
  then show ?thesis
    using assms pl discord_sink_payload [of pl url]
    by (simp add: handler_eq handler_try_eq fields_ok_def env_value_def resp_ok_def)
qed

end
