(* ===== verification/Async.thy ===== *)
theory Async
  imports Handler
begin

text \<open>
  The handler as the event loop runs it. \<open>handler\<close> in \<^verbatim>\<open>src/api/log.js\<close> is an
  \<open>async\<close> function with two \<open>await\<close>s: on the outbound call (line 61) and, on the failure
  path, on \<open>discordResponse.text()\<close> (line 73). Each \<open>await\<close> ends a slice of the run; the
  next slice starts when the promise settles. \<open>handler_async\<close> is the handler written with
  the computations of the prelude that keep the slices apart (\<open>abind\<close>, \<open>await\<close>), statement
  for statement as \<open>handler\<close> in \<open>Handler\<close>; it returns the slices of effects. The lemmas
  show that joining the slices gives the sequential model back (so every property of
  \<open>Handler\<close> holds of the asynchronous run), bound the number of slices, and place the
  response in the last one.
\<close>

text \<open>\<open>res.status(n).json(...)\<close> and \<open>await fetch(url, init)\<close>: the call is made in the current
  slice, and the run resumes in a new slice with the settled promise.\<close>

definition arespond :: "nat \<Rightarrow> string \<Rightarrow> (exn, effect, unit) acomp" where
  "arespond status msg = aemit (Respond status (message_body msg))"

definition afetch_call :: "fetch_oracle \<Rightarrow> string \<Rightarrow> outbound \<Rightarrow> (exn, effect, fetch_response) acomp" where
  "afetch_call fetch url init = abind (aemit (Fetch url init)) (\<lambda>_. await (fetch url init))"

definition handler_try_async :: "string option \<Rightarrow> fetch_oracle \<Rightarrow> request \<Rightarrow> (exn, effect, unit) acomp" where
  "handler_try_async webhook fetch req =
     abind (alift (req_body req)) (\<lambda>body.
     abind (alift (destructure ''req.body'' body body_keys)) (\<lambda>fs.
     let username = fs ! 0; password = fs ! 1; userAgent = fs ! 2; timestamp = fs ! 3 in
     if \<not> js_truthy username \<or> \<not> js_truthy password
     then arespond 400 ''Username and password are required.''
     else
     abind (alift (discord_payload username password userAgent timestamp)) (\<lambda>payload.
     if \<not> js_truthy (env_value webhook)
     then abind (aemit (ConsoleError [LogText ''DISCORD_WEBHOOK_URL is not set in environment variables.'']))
            (\<lambda>_. arespond 500 ''Server configuration error.'')
     else
     abind (afetch_call fetch (the webhook) (discord_request payload)) (\<lambda>discordResponse.
     if \<not> resp_ok discordResponse
     then abind (await (resp_text discordResponse)) (\<lambda>errorBody.
          abind (aemit (ConsoleError [LogText ''Failed to send to Discord:'',
                                      LogNumber (resp_status discordResponse), LogText errorBody]))
            (\<lambda>_. arespond 500 ''Failed to log data.''))
     else arespond 200 ''Log received successfully.''))))"

definition handler_catch_async :: "exn \<Rightarrow> (exn, effect, unit) acomp" where
  "handler_catch_async error =
     abind (aemit (ConsoleError [LogText ''An unexpected error occurred in the API function:'', LogError error]))
       (\<lambda>_. arespond 500 ''An internal server error occurred.'')"

definition handler_async :: "string option \<Rightarrow> fetch_oracle \<Rightarrow> request \<Rightarrow> effect list list" where
  "handler_async webhook fetch req =
     (if req_method req \<noteq> ''POST'' then snd (arespond 405 ''Method Not Allowed'')
      else snd (atry_catch (handler_try_async webhook fetch req) handler_catch_async))"

subsection \<open>The asynchronous run flattens to the sequential one\<close>

lemma handler_try_async_flat: "aflat (handler_try_async w f req) = handler_try w f req"
  by (simp add: handler_try_async_def handler_try_def aflat_abind aflat_simps aflat_if Let_def
                arespond_def respond_def afetch_call_def fetch_call_def cong: if_cong)

text \<open>The slices of a run, for each path through the handler.\<close>

lemma handler_try_async_eq:
  "handler_try_async w f req =
    (case req_body req of
       Inl e \<Rightarrow> (Inl e, [[]])
     | Inr b \<Rightarrow>
       if b = JUndefined \<or> b = JNull then (Inl (destructure_error ''username'' ''req.body'' (if b = JUndefined then ''undefined'' else ''null'')), [[]])
       else if \<not> fields_ok b then (Inr (), [[resp_validation_error]])
       else case submission_payload b of
         Inl e \<Rightarrow> (Inl e, [[]])
       | Inr pl \<Rightarrow>
         if \<not> js_truthy (env_value w)
         then (Inr (), [[log_config_missing, resp_config_error]])
         else case f (the w) (discord_request pl) of
           Inl e \<Rightarrow> (Inl e, [[Fetch (the w) (discord_request pl)], []])
         | Inr r \<Rightarrow>
           if resp_ok r then (Inr (), [[Fetch (the w) (discord_request pl)], [resp_success]])
           else case resp_text r of
             Inl e \<Rightarrow> (Inl e, [[Fetch (the w) (discord_request pl)], [], []])
           | Inr t \<Rightarrow> (Inr (), [[Fetch (the w) (discord_request pl)], [],
                 [log_forward_failed (resp_status r) t, resp_forward_failed]]))"
  by (simp add: handler_try_async_def arespond_def afetch_call_def Let_def fields_ok_def body_keys_def
         destructure_eq acomp_simps handler_effect_defs split: sum.split)

lemma handler_async_eq:
  "handler_async w f req =
     (if req_method req \<noteq> ''POST'' then [[resp_method_not_allowed]]
      else case fst (handler_try_async w f req) of
        Inl e \<Rightarrow> seg_join (snd (handler_try_async w f req)) [[log_unexpected e, resp_internal_error]]
      | Inr _ \<Rightarrow> snd (handler_try_async w f req))"
  by (simp add: handler_async_def atry_catch_def handler_catch_async_def arespond_def acomp_simps
                handler_effect_defs split: prod.split sum.split)

text \<open>A run has at most three slices: at most two suspension points, the outbound call and
  the reading of the downstream's error text.\<close>

lemma handler_async_segments_bound: "length (handler_async w f req) \<le> 3"
  by (simp add: handler_async_eq handler_try_async_eq split: sum.split)

subsection \<open>Properties of the asynchronous run\<close>

text \<open>Joining the slices of the asynchronous run gives exactly the effects of the sequential
  model, so every property of \<open>Handler\<close> holds of the asynchronous run.\<close>

lemma handler_async_concat: "concat (handler_async w f req) = handler w f req"
proof -
  have "aflat (atry_catch (handler_try_async w f req) handler_catch_async)
          = try_catch (handler_try w f req) handler_catch"
    by (simp add: aflat_atry_catch handler_try_async_flat handler_catch_async_def handler_catch_def [abs_def]
                  aflat_abind aflat_simps arespond_def respond_def)
  then have "concat (snd (atry_catch (handler_try_async w f req) handler_catch_async))
               = snd (try_catch (handler_try w f req) handler_catch)"
    by (metis aflat_def snd_conv)
  then show ?thesis
    by (simp add: handler_async_def handler_def arespond_def respond_def aemit_def emit_def)
qed

text \<open>
  C21. No slice but the last one sends a response: the caller is answered only after every
  awaited promise of the run has settled.
\<close>

theorem handler_async_response_last:
  "filter is_response (concat (butlast (handler_async w f req))) = []"
  by (simp add: handler_async_eq handler_try_async_eq split: sum.split)

text \<open>
  C22. When the downstream answers with a status outside 2xx, the run suspends twice: once
  for the outbound call and once for \<open>text()\<close>, with no effect in between; the log line and
  the response come in the third slice. The spec says a request has exactly one suspension
  point.
\<close>

theorem handler_async_forward_failed:
  assumes "req_method req = ''POST''" "req_body req = Inr b" "b \<noteq> JUndefined" "b \<noteq> JNull"
    and "js_truthy (js_get b ''username'')" "js_truthy (js_get b ''password'')"
    and "submission_payload b = Inr pl" "w = Some url" "url \<noteq> []"
    and "f url (discord_request pl) = Inr r" "\<not> resp_ok r" "resp_text r = Inr t"
  shows "handler_async w f req =
           [[Fetch url (discord_request pl)], [],
            [log_forward_failed (resp_status r) t, resp_forward_failed]]"
  using assms by (simp add: handler_async_eq handler_try_async_eq fields_ok_def env_value_def)

text \<open>
  C27. When the downstream answers outside 2xx and reading its body (\<open>text()\<close>, line 73)
  rejects, the rejection reaches the top-level catch: it is logged and the caller gets 500
  "An internal server error occurred.", in the third slice of the run.
\<close>

theorem handler_text_rejected:
  assumes "req_method req = ''POST''" "req_body req = Inr b" "b \<noteq> JUndefined" "b \<noteq> JNull"
    and "js_truthy (js_get b ''username'')" "js_truthy (js_get b ''password'')"
    and "submission_payload b = Inr pl" "w = Some url" "url \<noteq> []"
    and "f url (discord_request pl) = Inr r" "\<not> resp_ok r" "resp_text r = Inl e"
  shows "handler w f req = [Fetch url (discord_request pl), log_unexpected e, resp_internal_error] \<and>
         handler_async w f req = [[Fetch url (discord_request pl)], [], [log_unexpected e, resp_internal_error]]"
  using assms
  by (simp add: handler_eq handler_try_eq handler_async_eq handler_try_async_eq fields_ok_def env_value_def)

end
