(* ===== verification/EventLoop.thy ===== *)
theory EventLoop
  imports Async
begin

text \<open>
  Concurrent requests on one event loop. The platform may deliver several requests to the
  same instance; the handler keeps no state between requests (spec, section 5), and the
  event loop runs one slice at a time: the call of \<open>handler\<close> for a new request, or the
  continuation of a request whose awaited promise settled, in any order. A state holds the
  slices each request still has to run (\<open>pending\<close>, by request number) and the effects
  performed so far, each tagged with its request (\<open>trace\<close>); \<open>loop_step\<close> runs one slice
  of one request. Since each request's slices are those of \<open>handler_async\<close>, the number of
  turns a schedule can take is bounded by what the handler's two \<open>await\<close>s allow.
\<close>

record loop_state =
  pending :: "effect list list list"
  trace :: "(nat \<times> effect) list"

text \<open>At the start every request is waiting to be called: all its slices are pending.\<close>

definition loop_init :: "effect list list list \<Rightarrow> loop_state" where
  "loop_init segs = \<lparr>pending = segs, trace = []\<rparr>"

text \<open>One turn of the event loop: the next slice of request \<open>i\<close> runs to its end, without
  interruption, and its effects are appended to the trace.\<close>

inductive loop_step :: "loop_state \<Rightarrow> loop_state \<Rightarrow> bool" where
  resume: "i < length (pending s) \<Longrightarrow> pending s ! i = seg # rest \<Longrightarrow>
           loop_step s \<lparr>pending = (pending s)[i := rest], trace = trace s @ map (Pair i) seg\<rparr>"

definition loop_measure :: "loop_state \<Rightarrow> nat" where
  "loop_measure s = sum_list (map length (pending s))"

subsection \<open>Progress\<close>

lemma loop_stepI:
  "i < length (pending s) \<Longrightarrow> pending s ! i = seg # rest \<Longrightarrow>
   s' = \<lparr>pending = (pending s)[i := rest], trace = trace s @ map (Pair i) seg\<rparr> \<Longrightarrow> loop_step s s'"
  by (simp add: loop_step.resume)

lemma loop_step_measure: "loop_step s s' \<Longrightarrow> loop_measure s' < loop_measure s"
proof (induction rule: loop_step.induct)
  case (resume i s seg rest)
  have "length (pending s ! i) \<in> set (map length (pending s))" using resume.hyps(1) by simp
  then have "length (pending s ! i) \<le> sum_list (map length (pending s))" by (rule member_le_sum_list) simp
  with resume have "sum_list (map length (pending s)) = sum_list (map length ((pending s)[i := rest])) + 1"
    by (simp add: map_update sum_list_update)
  then show ?case by (simp add: loop_measure_def)
qed

lemma loop_relpow_measure: "(loop_step ^^ k) s s' \<Longrightarrow> loop_measure s' + k \<le> loop_measure s"
proof (induction k arbitrary: s')
  case 0
  then show ?case by simp
next
  case (Suc k)
  then obtain s'' where "(loop_step ^^ k) s s''" "loop_step s'' s'" by (auto elim: relpowp_Suc_E)
  with Suc.IH show ?case using loop_step_measure by fastforce
qed

lemma loop_measure_init: "loop_measure (loop_init (map (handler_async w f) reqs)) \<le> 3 * length reqs"
proof -
  have "sum_list (map length (map (handler_async w f) reqs)) \<le> sum_list (map (\<lambda>_. 3::nat) reqs)"
    unfolding map_map comp_def by (rule sum_list_mono) (rule handler_async_segments_bound)
  then show ?thesis by (simp add: loop_measure_def loop_init_def map_replicate_const sum_list_replicate)
qed

subsection \<open>Properties of the event loop\<close>

text \<open>
  C20. Every schedule of the event loop over \<open>n\<close> requests is finite, with at most \<open>3 n\<close>
  turns: each turn runs one slice and a request has at most three.
\<close>

theorem loop_turns_bound:
  assumes "(loop_step ^^ k) (loop_init (map (handler_async w f) reqs)) s"
  shows "k \<le> 3 * length reqs"
  using loop_relpow_measure [OF assms] loop_measure_init [of w f reqs] by simp

end
