(* ===== verification/Spec2Isabelle.thy ===== *)
theory Spec2Isabelle
  imports Contract Sink EventLoop
begin

text \<open>
  \<^bold>\<open>A verified model of the credential-forwarding endpoint \<^verbatim>\<open>src/api/log.js\<close>.\<close>

  \<^bold>\<open>The program.\<close> One Vercel serverless function, \<^verbatim>\<open>handler(req, res)\<close>. It rejects
  any method but POST (405); inside a \<open>try\<close> it destructures \<open>username\<close>, \<open>password\<close>,
  \<open>userAgent\<close> and \<open>timestamp\<close> from \<open>req.body\<close>, answers 400 when the username or the
  password is falsy, builds a Discord webhook payload (three of the values interpolated into
  Markdown code blocks), answers 500 when \<open>DISCORD_WEBHOOK_URL\<close> is unset or empty, posts
  the JSON-serialized payload to that URL, and answers 500 or 200 after the downstream
  status; a \<open>catch\<close> turns every exception into a logged 500. Its collaborators are the
  JavaScript runtime (truthiness, ToString, destructuring, \<open>JSON.stringify\<close>), the
  platform (body parsing, the environment) and the outbound \<open>fetch\<close>.

  \<^bold>\<open>The library.\<close>
  \<^item> \<open>Prelude\<close>: the exception/effect computations \<open>('x, 'e, 'a) comp\<close> (an outcome,
    \<open>Inl\<close> a thrown value, and the list of effects performed), with \<open>cbind\<close>, \<open>emit\<close>,
    \<open>lift\<close>, \<open>try_catch\<close>, the rewriting collections \<open>comp_simps\<close> (run a composed
    computation) and \<open>comp_trace\<close> (outcome and trace by cases), and list lemmas
    (\<open>join_with\<close>, \<open>seq_results\<close>, infixes).
  \<^item> \<open>JsValue\<close>: the values (\<open>jsval\<close>: undefined, null, booleans, safe integers, UTF-8
    strings, arrays, objects as association lists) and exceptions (\<open>exn\<close>); ToBoolean
    (\<open>js_truthy\<close>, line 14), Number::toString (\<open>int_to_dec\<close>), ToString as template
    literals apply it (\<open>js_to_string\<close>, lines 27, 32, 42, with \<open>Array.prototype.join\<close>
    and the TypeError of an object with an own \<open>toString\<close>), property reads
    (\<open>js_get\<close>) and the destructuring of line 11 (\<open>destructure\<close>).
  \<^item> \<open>Json\<close>: \<open>JSON.stringify\<close> (\<open>json_stringify\<close>, \<open>json_quote\<close>), applied on line 66,
    and what a serialization contains.
  \<^item> \<open>Payload\<close>: the object literal of lines 19--47 (\<open>payload_object\<close>) and its
    evaluation with the three conversions in source order (\<open>discord_payload\<close>).
  \<^item> \<open>Handler\<close>: the request, the outbound request and response, the effects
    (\<open>ConsoleError\<close>, \<open>Fetch\<close>, \<open>Respond\<close>), the body of the \<open>try\<close> block
    (\<open>handler_try\<close>, lines 11--82), the \<open>catch\<close> block (\<open>handler_catch\<close>, 84--88) and the
    function (\<open>handler\<close>, 4--89); the behaviour of each branch (C1--C6) and of every run
    (C7--C11), from a normal form of a run (\<open>handler_try_eq\<close>, \<open>handler_eq\<close>).
  \<^item> \<open>Contract\<close>: the spec's error taxonomy (\<open>outcome\<close>), the response of each outcome,
    the outcome the spec assigns to an input (\<open>spec_outcome\<close>, the spec's steps in the
    spec's order) and the inputs on which code and spec differ (\<open>spec_divergent\<close>).
  \<^item> \<open>JsonParse\<close>: a JSON decoder (RFC 8259 on the modelled values: literals, integers
    without leading zeros, strings with every escape including \<open>\uXXXX\<close> decoded to
    UTF-8, arrays, objects, white space), the reading side of the posted body, written
    with fuel (\<open>parse_value\<close>, \<open>parse_elems\<close>, \<open>parse_members\<close>) and run on a whole
    document by \<open>json_parse\<close> with fuel one more than the length of the text;
    \<open>json_norm\<close> is what \<open>JSON.stringify\<close> keeps of a value. It models no repository
    code: it states what the posted text means.
  \<^item> \<open>Webhook\<close>: the outbound interface of spec section 6 as a predicate on decoded
    documents (\<open>webhook_shape\<close>: text content, embeds with a text title, a numeric colour
    and fields with a text name and value and a boolean \<open>inline\<close>).
  \<^item> \<open>Sink\<close>: the Discord webhook as a \<open>fetch\<close> oracle (\<open>discord_sink\<close>): it decodes
    the posted body and accepts it (204) or rejects it (400) by Discord's rules for
    messages, embeds and fields, with their length limits counted in code points
    (\<open>utf8_len\<close>). It is a model of the collaborator, not of repository code.
  \<^item> \<open>Async\<close>: the handler as the event loop runs it (\<open>handler_async\<close>), the same
    statements written with the computations of the prelude that keep the slices between
    the two \<open>await\<close>s (lines 61 and 73) apart.
  \<^item> \<open>EventLoop\<close>: concurrent requests on one event loop, an inductive step relation
    (\<open>loop_step\<close>) that runs one pending slice of one request per turn, in any order; its
    state is the pending slices per request and the trace of tagged effects.
  \<^item> This theory: the sample inputs of the witnesses (a request of the spec's scenario, a
    non-POST request, downstreams that accept, refuse and fail, and a schedule of the event
    loop interleaving two requests) and the properties that span the components.

  \<^bold>\<open>How the model corresponds to the code.\<close> The handler is a function of the configured
  URL (\<open>string option\<close>: \<open>process.env\<close> holds a string or \<open>undefined\<close>), a fetch oracle
  (\<open>string \<Rightarrow> outbound \<Rightarrow> exn + fetch_response\<close>: the promise rejects or resolves to a
  response whose \<open>text()\<close> rejects or resolves) and the request (its method, and reading
  \<open>req.body\<close> as \<open>exn + jsval\<close>, since the platform's getter throws on malformed JSON).
  It returns the list of effects in the order the code performs them. Every statement that
  can throw is a \<open>cbind\<close>, every \<open>return res.status(n).json(...)\<close> an emitted
  \<open>Respond\<close> after which nothing else runs. There is no loop: the handler is straight-line
  code with two suspension points, both modelled by the oracle, so the handler needs no
  fuel. The decoder of \<open>JsonParse\<close> does: every call on a value, an array element or an
  object member spends one unit, and \<open>parse_value n\<close> reads the serialization \<open>t\<close> of a
  value whenever \<open>length t \<le> n\<close>, since each nested text is shorter than the text around
  it by at least its brackets; \<open>json_parse\<close> therefore runs with \<open>length s + 1\<close>. The
  event loop needs none either: its step relation is an \<open>inductive\<close>, and that every
  schedule ends is a theorem (C20), from the measure \<open>loop_measure\<close> (pending slices).

  \<^bold>\<open>What is proved.\<close> \<open>Handler\<close>: each branch of the handler as the code takes it
  (C1--C6), and the two body edge cases, an unreadable body and a \<open>null\<close> body, both of
  which end in the internal error (C16, C17); over every input and every downstream
  behaviour, exactly one response, sent last (C7); at most one outbound call (C8), made only
  after every check passed and carrying the payload of the request's own fields (C9); only
  the six public responses (C10); the downstream's error text never in a response (C11);
  one \<open>console.error\<close> line exactly on every 500 answer, as the spec's side-effect clause
  says (C28).
  \<open>Payload\<close>: the serialized payload carries the three converted values verbatim (C12);
  building it fails exactly when one of the three conversions throws (C13); an absent
  timestamp leaves the field without a \<open>value\<close> (C14). Here: the posted body carries the
  credentials (C15), and decodes back to the payload built from the request (C19, through
  \<open>parse_value_document\<close> of \<open>JsonParse\<close>).
  \<open>Contract\<close>: the handler refines the spec's contract exactly off the divergent inputs
  (C18), among them the order of the configuration check against payload construction.
  \<open>Async\<close>: joining the slices gives the sequential model (\<open>handler_async_concat\<close>), so
  every property above holds of the asynchronous run; the response is in the last slice
  (C21); the failure path suspends twice (C22), where the spec says once; when reading the
  downstream's error body rejects, the caller gets the internal error in the third slice
  (C27). \<open>EventLoop\<close>: a schedule of \<open>n\<close> requests has at most \<open>3 n\<close> turns (C20).
  \<open>Webhook\<close>: a built payload, as the webhook reads it, has the interface's shape exactly
  when the timestamp is a string (C23); here, the same of every body the handler posts
  (C24). \<open>Sink\<close>: against Discord, a valid request is answered 200 exactly when Discord
  accepts the payload it decodes (C25); a request without a timestamp is never delivered
  and is answered 500 (C26), where the spec says an absent timestamp is tolerated.

  \<^bold>\<open>Not modelled.\<close> The platform's body parser and \<open>process.env\<close> are inputs: the
  parser is platform code outside the repository, and its \<open>JSON.parse\<close> accepts numbers and
  escapes (fractions, exponents, surrogate pairs) outside the model's values, so a model
  of it would be partial; its outcomes, a value or a thrown error, are covered by
  quantifying over \<open>req_body\<close>; numbers
  are safe integers (fractions and exponent notation are not modelled, and the decoder
  rejects them); strings are UTF-8 byte strings, so lone UTF-16 surrogates are not
  representable and \<open>\uXXXX\<close> escapes of surrogate pairs are rejected by the decoder;
  \<open>console.error\<close> formatting and the HTTP transport are not modelled beyond their
  arguments; the Discord service is either any fetch oracle or the rule-based
  \<open>discord_sink\<close>, without its rate limits, webhook tokens or error bodies; the event loop models one instance's scheduling of
  whole slices, not timers, timeouts or the platform's request limit.\<close>

definition sample_webhook :: string where
  "sample_webhook = ''https://discord.com/api/webhooks/0/token''"

definition sample_body :: jsval where
  "sample_body =
     JObject [(''username'', JString ''a@b.com''), (''password'', JString ''p1''),
              (''userAgent'', JString ''UA/1''), (''timestamp'', JString ''2024-01-01T00:00:00Z'')]"

definition sample_request :: request where
  "sample_request = \<lparr>req_method = ''POST'', req_body = Inr sample_body\<rparr>"

definition sample_payload :: jsval where
  "sample_payload = payload_object ''a@b.com'' ''p1'' ''UA/1'' (JString ''2024-01-01T00:00:00Z'')"

definition accepting_fetch :: fetch_oracle where
  "accepting_fetch = (\<lambda>_ _. Inr \<lparr>resp_status = 204, resp_text = Inr []\<rparr>)"

definition refusing_fetch :: fetch_oracle where
  "refusing_fetch = (\<lambda>_ _. Inr \<lparr>resp_status = 400, resp_text = Inr ''Invalid Form Body''\<rparr>)"

definition text_failing_fetch :: fetch_oracle where
  "text_failing_fetch = (\<lambda>_ _. Inr \<lparr>resp_status = 502, resp_text = Inl (NetworkError ''terminated'')\<rparr>)"

definition unreachable_fetch :: fetch_oracle where
  "unreachable_fetch = (\<lambda>_ _. Inl (NetworkError ''fetch failed''))"

text \<open>A second request, not a POST, and a schedule of the event loop that interleaves the
  two: the sample request is called and suspends on its outbound call, the second request
  runs to its answer, then the first resumes and is answered.\<close>

definition sample_get_request :: request where
  "sample_get_request = \<lparr>req_method = ''GET'', req_body = Inr JNull\<rparr>"

definition sample_midway :: loop_state where
  "sample_midway =
     \<lparr>pending = [[[resp_success]], []],
      trace = [(0, Fetch sample_webhook (discord_request sample_payload)), (1, resp_method_not_allowed)]\<rparr>"

definition sample_final :: loop_state where
  "sample_final =
     \<lparr>pending = [[], []],
      trace = [(0, Fetch sample_webhook (discord_request sample_payload)), (1, resp_method_not_allowed),
               (0, resp_success)]\<rparr>"

definition sample_body_no_timestamp :: jsval where
  "sample_body_no_timestamp =
     JObject [(''username'', JString ''a@b.com''), (''password'', JString ''p1''), (''userAgent'', JString ''UA/1'')]"

lemmas sample_defs = sample_webhook_def sample_body_def sample_request_def sample_payload_def

lemma sample_fields [simp]:
  "js_get sample_body ''username'' = JString ''a@b.com''" "js_get sample_body ''password'' = JString ''p1''"
  "js_get sample_body ''userAgent'' = JString ''UA/1''"
  "js_get sample_body ''timestamp'' = JString ''2024-01-01T00:00:00Z''"
  "sample_body \<noteq> JUndefined" "sample_body \<noteq> JNull"
  by (simp_all add: sample_body_def)

lemma sample_submission_payload [simp]:
  "discord_payload (JString ''a@b.com'') (JString ''p1'') (JString ''UA/1'')
     (JString ''2024-01-01T00:00:00Z'') = Inr sample_payload"
  by (simp add: sample_payload_def discord_payload_def)

lemma sample_webhook_ne [simp]: "sample_webhook \<noteq> []"
  by (simp add: sample_webhook_def)

lemma sample_run_fetch:
  "Fetch sample_webhook (discord_request sample_payload)
     \<in> set (handler (Some sample_webhook) accepting_fetch sample_request)"
  by (simp add: handler_eq handler_try_eq sample_request_def accepting_fetch_def resp_ok_def
                fields_ok_def env_value_def)

lemma sample_async_runs:
  "handler_async (Some sample_webhook) accepting_fetch sample_request =
     [[Fetch sample_webhook (discord_request sample_payload)], [resp_success]]"
  "handler_async (Some sample_webhook) accepting_fetch sample_get_request = [[resp_method_not_allowed]]"
  by (simp_all add: handler_async_eq handler_try_async_eq sample_request_def sample_get_request_def
                    accepting_fetch_def resp_ok_def fields_ok_def env_value_def)

lemma sample_schedule_steps:
  "(loop_step ^^ 2) (loop_init (map (handler_async (Some sample_webhook) accepting_fetch)
                                [sample_request, sample_get_request])) sample_midway"
  "(loop_step ^^ 3) (loop_init (map (handler_async (Some sample_webhook) accepting_fetch)
                                [sample_request, sample_get_request])) sample_final"
proof -
  let ?s0 = "loop_init (map (handler_async (Some sample_webhook) accepting_fetch) [sample_request, sample_get_request])"
  let ?s1 = "\<lparr>pending = [[[resp_success]], [[resp_method_not_allowed]]],
              trace = [(0::nat, Fetch sample_webhook (discord_request sample_payload))]\<rparr>"
  have 1: "loop_step ?s0 ?s1"
    by (rule loop_stepI [where i = 0 and seg = "[Fetch sample_webhook (discord_request sample_payload)]"
          and rest = "[[resp_success]]"]) (simp_all add: loop_init_def sample_async_runs)
  have 2: "loop_step ?s1 sample_midway"
    by (rule loop_stepI [where i = 1 and seg = "[resp_method_not_allowed]" and rest = "[]"])
       (simp_all add: sample_midway_def)
  have 3: "loop_step sample_midway sample_final"
    by (rule loop_stepI [where i = 0 and seg = "[resp_success]" and rest = "[]"])
       (simp_all add: sample_midway_def sample_final_def)
  have "(loop_step ^^ Suc 0) ?s0 ?s1" by (rule relpowp_Suc_I [OF relpowp_0_I [of loop_step ?s0] 1])
  then have "(loop_step ^^ Suc (Suc 0)) ?s0 sample_midway" using 2 by (rule relpowp_Suc_I)
  then show mid: "(loop_step ^^ 2) ?s0 sample_midway" by (simp only: numeral_2_eq_2)
  have "(loop_step ^^ Suc 2) ?s0 sample_final" using mid 3 by (rule relpowp_Suc_I)
  then show "(loop_step ^^ 3) ?s0 sample_final" by (simp only: numeral_3_eq_3 numeral_2_eq_2)
qed

subsection \<open>Witnesses of the branch properties\<close>

theorem handler_method_not_allowed_witness:
  "handler None accepting_fetch (sample_request\<lparr>req_method := ''GET''\<rparr>)
     = [Respond 405 (message_body ''Method Not Allowed'')]"
  by (rule handler_method_not_allowed) simp

theorem handler_validation_error_witness:
  "handler (Some sample_webhook) accepting_fetch
     \<lparr>req_method = ''POST'', req_body = Inr (JObject [(''username'', JString ''a@b.com'')])\<rparr>
     = [Respond 400 (message_body ''Username and password are required.'')]"
  by (rule handler_validation_error [where b = "JObject [(''username'', JString ''a@b.com'')]"]) simp_all

theorem handler_config_error_witness:
  "handler None accepting_fetch sample_request =
     [ConsoleError [LogText ''DISCORD_WEBHOOK_URL is not set in environment variables.''],
      Respond 500 (message_body ''Server configuration error.'')]"
  by (rule handler_config_error [where b = sample_body and pl = sample_payload])
     (simp_all add: sample_request_def env_value_def)

theorem handler_forwarded_witness:
  "handler (Some sample_webhook) accepting_fetch sample_request =
     [Fetch sample_webhook (discord_request sample_payload),
      Respond 200 (message_body ''Log received successfully.'')]"
  by (rule handler_forwarded [where b = sample_body and pl = sample_payload
        and r = "\<lparr>resp_status = 204, resp_text = Inr []\<rparr>"])
     (simp_all add: sample_request_def accepting_fetch_def resp_ok_def)

theorem handler_forward_failed_witness:
  "handler (Some sample_webhook) refusing_fetch sample_request =
     [Fetch sample_webhook (discord_request sample_payload),
      ConsoleError [LogText ''Failed to send to Discord:'', LogNumber 400, LogText ''Invalid Form Body''],
      Respond 500 (message_body ''Failed to log data.'')]"
  using handler_forward_failed [where req = sample_request and b = sample_body and pl = sample_payload
        and w = "Some sample_webhook" and url = sample_webhook and f = refusing_fetch
        and r = "\<lparr>resp_status = 400, resp_text = Inr ''Invalid Form Body''\<rparr>" and t = "''Invalid Form Body''"]
  by (simp add: sample_request_def refusing_fetch_def resp_ok_def)

theorem handler_fetch_rejected_witness:
  "handler (Some sample_webhook) unreachable_fetch sample_request =
     [Fetch sample_webhook (discord_request sample_payload),
      ConsoleError [LogText ''An unexpected error occurred in the API function:'',
                    LogError (NetworkError ''fetch failed'')],
      Respond 500 (message_body ''An internal server error occurred.'')]"
  using handler_fetch_rejected [where req = sample_request and b = sample_body and pl = sample_payload
        and w = "Some sample_webhook" and url = sample_webhook and f = unreachable_fetch
        and e = "NetworkError ''fetch failed''"]
  by (simp add: sample_request_def unreachable_fetch_def)

theorem handler_body_unreadable_witness:
  "handler (Some sample_webhook) accepting_fetch
     \<lparr>req_method = ''POST'', req_body = Inl (ApiError 400 ''Invalid JSON'')\<rparr> =
   [ConsoleError [LogText ''An unexpected error occurred in the API function:'',
                  LogError (ApiError 400 ''Invalid JSON'')],
    Respond 500 (message_body ''An internal server error occurred.'')]"
  by (rule handler_body_unreadable) simp_all

theorem handler_body_nullish_witness:
  "handler (Some sample_webhook) accepting_fetch \<lparr>req_method = ''POST'', req_body = Inr JNull\<rparr> =
   [ConsoleError [LogText ''An unexpected error occurred in the API function:'',
                  LogError (destructure_error ''username'' ''req.body'' ''null'')],
    Respond 500 (message_body ''An internal server error occurred.'')]"
  using handler_body_nullish [where b = JNull and w = "Some sample_webhook" and f = accepting_fetch
          and req = "\<lparr>req_method = ''POST'', req_body = Inr JNull\<rparr>"]
  by simp

theorem handler_fetch_guard_witness:
  "Fetch sample_webhook (discord_request sample_payload)
     \<in> set (handler (Some sample_webhook) accepting_fetch sample_request) \<and>
   req_method sample_request = ''POST'' \<and> Some sample_webhook = Some sample_webhook \<and> sample_webhook \<noteq> [] \<and>
   (\<exists>b pl. req_body sample_request = Inr b \<and> js_truthy (js_get b ''username'') \<and>
           js_truthy (js_get b ''password'') \<and> submission_payload b = Inr pl \<and>
           discord_request sample_payload = discord_request pl)"
  using sample_run_fetch handler_fetch_guard [OF sample_run_fetch] by simp

theorem handler_async_forward_failed_witness:
  "handler_async (Some sample_webhook) refusing_fetch sample_request =
     [[Fetch sample_webhook (discord_request sample_payload)], [],
      [log_forward_failed 400 ''Invalid Form Body'', resp_forward_failed]]"
  using handler_async_forward_failed [where req = sample_request and b = sample_body and pl = sample_payload
        and w = "Some sample_webhook" and url = sample_webhook and f = refusing_fetch
        and r = "\<lparr>resp_status = 400, resp_text = Inr ''Invalid Form Body''\<rparr>" and t = "''Invalid Form Body''"]
  by (simp add: sample_request_def refusing_fetch_def resp_ok_def)

theorem discord_payload_shape_witness:
  "discord_payload (JString ''a@b.com'') (JString ''p1'') (JString ''UA/1'') (JNumber 1704067200) =
     Inr (payload_object ''a@b.com'' ''p1'' ''UA/1'' (JNumber 1704067200)) \<and>
   \<not> webhook_shape (json_norm (payload_object ''a@b.com'' ''p1'' ''UA/1'' (JNumber 1704067200)))"
  using discord_payload_shape [of "JString ''a@b.com''" "JString ''p1''" "JString ''UA/1''" "JNumber 1704067200"]
  by (simp add: discord_payload_def)

theorem handler_discord_delivery_witness:
  "handler (Some sample_webhook) discord_sink sample_request =
     [Fetch sample_webhook (discord_request sample_payload), resp_success]"
  using handler_discord_delivery [where req = sample_request and b = sample_body and pl = sample_payload
        and w = "Some sample_webhook" and url = sample_webhook]
  by (simp add: sample_request_def sample_payload_def payload_object_accepted sink_blank_def utf8_len_def)

theorem handler_discord_missing_timestamp_witness:
  "handler (Some sample_webhook) discord_sink \<lparr>req_method = ''POST'', req_body = Inr sample_body_no_timestamp\<rparr> =
     [Fetch sample_webhook (discord_request (payload_object ''a@b.com'' ''p1'' ''UA/1'' JUndefined)),
      log_forward_failed 400 ''Invalid Form Body'', resp_forward_failed]"
  using handler_discord_missing_timestamp [where req = "\<lparr>req_method = ''POST'', req_body = Inr sample_body_no_timestamp\<rparr>"
        and b = sample_body_no_timestamp and pl = "payload_object ''a@b.com'' ''p1'' ''UA/1'' JUndefined"
        and w = "Some sample_webhook" and url = sample_webhook]
  by (simp add: sample_body_no_timestamp_def discord_payload_def)

theorem handler_text_rejected_witness:
  "handler (Some sample_webhook) text_failing_fetch sample_request =
     [Fetch sample_webhook (discord_request sample_payload), log_unexpected (NetworkError ''terminated''),
      resp_internal_error] \<and>
   handler_async (Some sample_webhook) text_failing_fetch sample_request =
     [[Fetch sample_webhook (discord_request sample_payload)], [],
      [log_unexpected (NetworkError ''terminated''), resp_internal_error]]"
  using handler_text_rejected [where req = sample_request and b = sample_body and pl = sample_payload
        and w = "Some sample_webhook" and url = sample_webhook and f = text_failing_fetch
        and r = "\<lparr>resp_status = 502, resp_text = Inl (NetworkError ''terminated'')\<rparr>"
        and e = "NetworkError ''terminated''"]
  by (simp add: sample_request_def text_failing_fetch_def resp_ok_def)

theorem loop_turns_bound_witness:
  "(loop_step ^^ 3) (loop_init (map (handler_async (Some sample_webhook) accepting_fetch)
                                [sample_request, sample_get_request])) sample_final \<and>
   (3::nat) \<le> 3 * length [sample_request, sample_get_request]"
  using sample_schedule_steps(2) loop_turns_bound [OF sample_schedule_steps(2)] by simp

theorem discord_payload_carries_credentials_witness:
  "discord_payload (JString ''a@b.com'') (JString ''p1'') (JString ''UA/1'')
     (JString ''2024-01-01T00:00:00Z'') = Inr sample_payload \<and>
   (\<exists>u p ua. js_to_string (JString ''a@b.com'') = Inr u \<and> js_to_string (JString ''p1'') = Inr p \<and>
      js_to_string (JString ''UA/1'') = Inr ua \<and>
      json_contains (json_quote (code_block u)) sample_payload \<and>
      json_contains (json_quote (code_block p)) sample_payload \<and>
      json_contains (json_quote (code_block ua)) sample_payload)"
  using discord_payload_carries_credentials [OF sample_submission_payload] by simp

subsection \<open>Properties across the components\<close>

text \<open>
  C15. When the handler posts to the webhook for a request whose username and password are
  strings, the posted body carries both verbatim, each as the quoted JSON string of its
  Markdown code block.
\<close>

theorem handler_forwards_credentials:
  assumes "Fetch url init \<in> set (handler w f req)" "req_body req = Inr b"
    and "js_get b ''username'' = JString u" "js_get b ''password'' = JString p"
  shows "\<exists>body. out_body init = Some body \<and>
           sublist (json_quote (code_block u)) body \<and> sublist (json_quote (code_block p)) body"
proof -
  obtain pl where pl: "submission_payload b = Inr pl" and init: "init = discord_request pl"
    using handler_fetch_payload [OF assms(1)] assms(2) by auto
  then obtain ua where "pl = payload_object u p ua (js_get b ''timestamp'')"
    using assms(3,4) by (auto simp: discord_payload_def split: sum.splits)
  then have "json_contains (json_quote (code_block u)) pl" "json_contains (json_quote (code_block p)) pl"
    by (simp_all add: payload_object_contains)
  then show ?thesis by (auto simp: json_contains_def init discord_request_def)
qed

theorem handler_forwards_credentials_witness:
  "Fetch sample_webhook (discord_request sample_payload)
     \<in> set (handler (Some sample_webhook) accepting_fetch sample_request) \<and>
   req_body sample_request = Inr sample_body \<and>
   js_get sample_body ''username'' = JString ''a@b.com'' \<and> js_get sample_body ''password'' = JString ''p1'' \<and>
   (\<exists>body. out_body (discord_request sample_payload) = Some body \<and>
      sublist (json_quote (code_block ''a@b.com'')) body \<and> sublist (json_quote (code_block ''p1'')) body)"
  using sample_run_fetch
        handler_forwards_credentials [OF sample_run_fetch, of sample_body "''a@b.com''" "''p1''"]
  by (simp add: sample_request_def)

text \<open>
  C19. What the handler posts is exactly what it built: whenever it calls the webhook, the
  body is a JSON document that a JSON decoder reads back as the payload built from the
  request's own fields, up to the \<open>undefined\<close> members \<open>JSON.stringify\<close> leaves out.
\<close>

theorem handler_posted_body_decodes:
  assumes "Fetch url init \<in> set (handler w f req)"
  shows "\<exists>b pl body. req_body req = Inr b \<and> submission_payload b = Inr pl \<and>
           out_body init = Some body \<and> json_parse body = Some (json_norm pl)"
proof -
  obtain b pl where b: "req_body req = Inr b" and pl: "submission_payload b = Inr pl"
    and init: "init = discord_request pl"
    using handler_fetch_payload [OF assms] by blast
  have "pl \<noteq> JUndefined" using pl by (auto simp: discord_payload_def payload_object_def split: sum.splits)
  then obtain body where body: "json_stringify pl = Some body"
    using json_stringify_None_iff by (cases "json_stringify pl") auto
  have "json_parse body = Some (json_norm pl)"
    using parse_value_document [OF body] by (simp add: json_parse_def skip_ws_def)
  with b pl body show ?thesis by (auto simp: init discord_request_def)
qed

theorem handler_posted_body_decodes_witness:
  "Fetch sample_webhook (discord_request sample_payload)
     \<in> set (handler (Some sample_webhook) accepting_fetch sample_request) \<and>
   (\<exists>b pl body. req_body sample_request = Inr b \<and> submission_payload b = Inr pl \<and>
      out_body (discord_request sample_payload) = Some body \<and> json_parse body = Some (json_norm pl))"
  by (intro conjI sample_run_fetch handler_posted_body_decodes [OF sample_run_fetch])

text \<open>
  C24. Whenever the handler calls the webhook, the posted body decodes to a document that
  has the shape of the spec's outbound interface if and only if the request's timestamp is
  a string.
\<close>

theorem handler_posted_body_shape:
  assumes "Fetch url init \<in> set (handler w f req)"
  shows "\<exists>b body v. req_body req = Inr b \<and> out_body init = Some body \<and> json_parse body = Some v \<and>
           (webhook_shape v \<longleftrightarrow> (\<exists>s. js_get b ''timestamp'' = JString s))"
proof -
  obtain b pl where b: "req_body req = Inr b" and pl: "submission_payload b = Inr pl"
    and init: "init = discord_request pl"
    using handler_fetch_payload [OF assms] by blast
  then obtain u p ua where pl_eq: "pl = payload_object u p ua (js_get b ''timestamp'')"
    by (auto simp: discord_payload_def split: sum.splits)
  then obtain body where body: "json_stringify pl = Some body" by (simp add: payload_object_def)
  have "json_parse body = Some (json_norm pl)"
    using parse_value_document [OF body] by (simp add: json_parse_def skip_ws_def)
  with b body pl_eq show ?thesis by (auto simp: init discord_request_def payload_object_shape)
qed

theorem handler_posted_body_shape_witness:
  "Fetch sample_webhook (discord_request sample_payload)
     \<in> set (handler (Some sample_webhook) accepting_fetch sample_request) \<and>
   (\<exists>b body v. req_body sample_request = Inr b \<and> out_body (discord_request sample_payload) = Some body \<and>
      json_parse body = Some v \<and> (webhook_shape v \<longleftrightarrow> (\<exists>s. js_get b ''timestamp'' = JString s)))"
  by (intro conjI sample_run_fetch handler_posted_body_shape [OF sample_run_fetch])

end
